theory Spec2Isabelle
  imports Main
begin

section \<open>Name validation of a semantic manifest\<close>

text \<open>
  A shallow embedding of \<^verbatim>\<open>dbt_semantic_interfaces/validations/unique_valid_name.py\<close>:
  the name validator \<^verbatim>\<open>check_valid_name\<close>, the rule \<^verbatim>\<open>UniqueAndValidNameRule\<close>
  and the rule \<^verbatim>\<open>PrimaryEntityDimensionPairs\<close>.

  Python strings are modelled as \<^typ>\<open>string\<close>; the names the rules are about are ASCII,
  and on ASCII text \<^verbatim>\<open>str.upper\<close> and \<^verbatim>\<open>str.lower\<close> are the mappings defined below.
  A raised exception is a value \<open>Inl e\<close> of a sum type.
\<close>

subsection \<open>Strings\<close>

definition is_lower :: "char \<Rightarrow> bool" where
  "is_lower c = (97 \<le> (of_char c :: nat) \<and> (of_char c :: nat) \<le> 122)"

definition is_upper :: "char \<Rightarrow> bool" where
  "is_upper c = (65 \<le> (of_char c :: nat) \<and> (of_char c :: nat) \<le> 90)"

definition is_digit :: "char \<Rightarrow> bool" where
  "is_digit c = (48 \<le> (of_char c :: nat) \<and> (of_char c :: nat) \<le> 57)"

definition upper_char :: "char \<Rightarrow> char" where
  "upper_char c = (if is_lower c then char_of ((of_char c :: nat) - 32) else c)"

definition lower_char :: "char \<Rightarrow> char" where
  "lower_char c = (if is_upper c then char_of ((of_char c :: nat) + 32) else c)"

text \<open>\<^verbatim>\<open>str.upper()\<close> and \<^verbatim>\<open>str.lower()\<close>.\<close>

definition upper :: "string \<Rightarrow> string" where
  "upper s = map upper_char s"

definition lower :: "string \<Rightarrow> string" where
  "lower s = map lower_char s"

subsection \<open>Errors\<close>

text \<open>
  The exceptions the code can raise: \<^verbatim>\<open>ValueError\<close> from the enum constructor
  \<^verbatim>\<open>MetricFlowReservedKeywords(value)\<close>, \<^verbatim>\<open>AssertionError\<close> from
  \<^verbatim>\<open>assert_values_exhausted\<close>, \<^verbatim>\<open>KeyError\<close> from a dictionary subscript.
\<close>

datatype py_error = ValueError | AssertionError | KeyError

subsection \<open>Contexts and issues\<close>

text \<open>
  \<^verbatim>\<open>FileContext.from_metadata\<close> is declared outside the file; the file context is kept
  as the metadata it is built from, of an arbitrary type \<open>'md\<close>.
\<close>

datatype 'md FileContext = from_metadata 'md

datatype SemanticModelReference = SemanticModelReference string

datatype SemanticModelElementReference = SemanticModelElementReference string string

datatype MetricModelReference = MetricModelReference string

datatype SemanticModelElementType = MEASURE | DIMENSION | ENTITY

datatype 'md ValidationContext =
    SemanticModelContext "'md FileContext" SemanticModelReference
  | SemanticModelElementContext "'md FileContext" SemanticModelElementReference
      SemanticModelElementType
  | MetricContext "'md FileContext" MetricModelReference

text \<open>\<^verbatim>\<open>ValidationError(context=..., message=...)\<close>: an issue of severity error.\<close>

datatype 'md ValidationIssue = ValidationError "'md ValidationContext option" string

subsection \<open>Reserved keywords\<close>

datatype MetricFlowReservedKeywords = METRIC_TIME | MF_INTERNAL_UUID

fun keyword_value :: "MetricFlowReservedKeywords \<Rightarrow> string" where
  "keyword_value METRIC_TIME = ''metric_time''"
| "keyword_value MF_INTERNAL_UUID = ''mf_internal_uuid''"

text \<open>The members of the enum, in the order of iteration over the class.\<close>

definition MetricFlowReservedKeywords_members :: "MetricFlowReservedKeywords list" where
  "MetricFlowReservedKeywords_members = [METRIC_TIME, MF_INTERNAL_UUID]"

text \<open>\<^verbatim>\<open>MetricFlowReservedKeywords(value)\<close>: the member with that value, or \<^verbatim>\<open>ValueError\<close>.\<close>

definition MetricFlowReservedKeywords_of :: "string \<Rightarrow> py_error + MetricFlowReservedKeywords" where
  "MetricFlowReservedKeywords_of v =
     (case find (\<lambda>k. keyword_value k = v) MetricFlowReservedKeywords_members of
        None \<Rightarrow> Inl ValueError
      | Some k \<Rightarrow> Inr k)"

definition get_reserved_reason :: "MetricFlowReservedKeywords \<Rightarrow> py_error + string" where
  "get_reserved_reason keyword =
     (if keyword = METRIC_TIME then
        Inr (''Used as the query input for creating time series metrics from measures with '' @
             ''different time dimension names.'')
      else if keyword = MF_INTERNAL_UUID then
        Inr ''Used internally to reference a column that has a uuid generated by MetricFlow.''
      else Inl AssertionError)"

subsection \<open>The name pattern\<close>

text \<open>
  \<^verbatim>\<open>NAME_REGEX = re.compile(r"\A[a-z]((?!__)[a-z0-9_])*[a-z0-9]\Z")\<close>.
  \<open>starts_with_dunder\<close> is the lookahead \<^verbatim>\<open>__\<close> at the current position;
  \<open>match_rest\<close> matches \<^verbatim>\<open>((?!__)[a-z0-9_])*[a-z0-9]\Z\<close> against the rest of the input:
  either the starred group is left and the last character class meets the end of the
  string, or the group takes one more character.
\<close>

definition is_underscore :: "char \<Rightarrow> bool" where
  "is_underscore c = ((of_char c :: nat) = 95)"

fun starts_with_dunder :: "string \<Rightarrow> bool" where
  "starts_with_dunder (c # d # _) = (is_underscore c \<and> is_underscore d)"
| "starts_with_dunder _ = False"

fun match_rest :: "string \<Rightarrow> bool" where
  "match_rest [] = False"
| "match_rest (c # cs) =
     (((is_lower c \<or> is_digit c) \<and> cs = []) \<or>
      (\<not> starts_with_dunder (c # cs) \<and> (is_lower c \<or> is_digit c \<or> is_underscore c) \<and>
       match_rest cs))"

definition NAME_REGEX_match :: "string \<Rightarrow> bool" where
  "NAME_REGEX_match name = (case name of [] \<Rightarrow> False | c # cs \<Rightarrow> is_lower c \<and> match_rest cs)"

text \<open>
  The pattern as the spec's data model words it: at least two characters, the first a
  lower-case letter, the last a lower-case letter or a digit, every character a
  lower-case letter, a digit or an underscore, and no two underscores in a row.
\<close>

fun has_dunder :: "string \<Rightarrow> bool" where
  "has_dunder (c # d # cs) = ((is_underscore c \<and> is_underscore d) \<or> has_dunder (d # cs))"
| "has_dunder _ = False"

definition name_pattern :: "string \<Rightarrow> bool" where
  "name_pattern name =
     (2 \<le> length name \<and> is_lower (hd name) \<and>
      (is_lower (last name) \<or> is_digit (last name)) \<and>
      list_all (\<lambda>c. is_lower c \<or> is_digit c \<or> is_underscore c) name \<and>
      \<not> has_dunder name)"

text \<open>
  The pattern written with the anchors \<^verbatim>\<open>^\<close> and \<^verbatim>\<open>$\<close>, as
  \<^verbatim>\<open>^[a-z]((?!__)[a-z0-9_])*[a-z0-9]$\<close>: in Python's \<^verbatim>\<open>re\<close> the anchor \<^verbatim>\<open>$\<close> matches at the
  end of the string and also just before a newline that ends the string.
\<close>

fun match_rest_dollar :: "string \<Rightarrow> bool" where
  "match_rest_dollar [] = False"
| "match_rest_dollar (c # cs) =
     (((is_lower c \<or> is_digit c) \<and> (cs = [] \<or> cs = [CHR 0x0A])) \<or>
      (\<not> starts_with_dunder (c # cs) \<and> (is_lower c \<or> is_digit c \<or> is_underscore c) \<and>
       match_rest_dollar cs))"

definition claimed_regex_match :: "string \<Rightarrow> bool" where
  "claimed_regex_match name =
     (case name of [] \<Rightarrow> False | c # cs \<Rightarrow> is_lower c \<and> match_rest_dollar cs)"

subsection \<open>check_valid_name\<close>

text \<open>
  \<^verbatim>\<open>str(list_of_names)\<close> inside an f-string: the \<^verbatim>\<open>repr\<close> of each name (enum member names
  are identifiers, so the \<^verbatim>\<open>repr\<close> is the name between single quotes), joined by a comma
  and a space, between brackets.
\<close>

definition py_repr_str :: "string \<Rightarrow> string" where
  "py_repr_str s = [CHR 0x27] @ s @ [CHR 0x27]"

fun py_join :: "string \<Rightarrow> string list \<Rightarrow> string" where
  "py_join sep [] = []"
| "py_join sep [x] = x"
| "py_join sep (x # y # ys) = x @ sep @ py_join sep (y # ys)"

definition py_str_list :: "string list \<Rightarrow> string" where
  "py_str_list xs = ''['' @ py_join '', '' (map py_repr_str xs) @ '']''"

definition syntax_message :: "string \<Rightarrow> string" where
  "syntax_message name =
     ''Invalid name `'' @ name @ ''` - names may only contain lower case letters, numbers, '' @
     ''and underscores. Additionally, names must start with a lower case letter, cannot end '' @
     ''with an underscore, cannot contain dunders (double underscores, or __), and must be '' @
     ''at least 2 characters long.''"

definition granularity_message :: "string list \<Rightarrow> string \<Rightarrow> string" where
  "granularity_message list_names name =
     ''Invalid name `'' @ name @ ''` - names cannot match reserved time granularity keywords '' @
     ''('' @ py_str_list list_names @ '')''"

definition reserved_message :: "string \<Rightarrow> string \<Rightarrow> string" where
  "reserved_message name reason =
     ''Invalid name `'' @ name @ ''` - this name is reserved by MetricFlow. Reason: '' @ reason"

text \<open>
  \<^verbatim>\<open>UniqueAndValidNameRule.check_valid_name(name, context)\<close>. The enum \<^verbatim>\<open>TimeGranularity\<close>
  is declared outside the file: the list \<^verbatim>\<open>TimeGranularity.list_names()\<close> is the parameter
  \<open>list_names\<close>.
\<close>

definition check_valid_name ::
  "string list \<Rightarrow> string \<Rightarrow> 'md ValidationContext option \<Rightarrow> py_error + 'md ValidationIssue list"
where
  "check_valid_name list_names name context =
     (let issues = [];
          issues = (if \<not> NAME_REGEX_match name
                    then issues @ [ValidationError context (syntax_message name)]
                    else issues);
          issues = (if upper name \<in> set list_names
                    then issues @ [ValidationError context (granularity_message list_names name)]
                    else issues)
      in if lower name \<in> set (map keyword_value MetricFlowReservedKeywords_members) then
           (case MetricFlowReservedKeywords_of (lower name) of
              Inl e \<Rightarrow> Inl e
            | Inr keyword \<Rightarrow>
                (case get_reserved_reason keyword of
                   Inl e \<Rightarrow> Inl e
                 | Inr reason \<Rightarrow>
                     Inr (issues @ [ValidationError context (reserved_message name reason)])))
         else Inr issues)"

subsection \<open>The manifest\<close>

text \<open>
  The protocols \<^verbatim>\<open>SemanticManifest\<close>, \<^verbatim>\<open>SemanticModel\<close> and their elements are declared
  outside the file; the records hold the attributes the rules read. The attribute
  \<^verbatim>\<open>name\<close> of each class is a field of its own record, so it carries the class as a prefix.
\<close>

text \<open>
  Modelled from the spec: the enum \<^verbatim>\<open>EntityType\<close> is declared outside the file. The rules
  only test whether an entity's type is \<^verbatim>\<open>PRIMARY\<close>; the other members stand for every
  other type.
\<close>

datatype EntityType = FOREIGN | NATURAL | PRIMARY | UNIQUE

record Measure =
  measure_name :: string

record Entity =
  entity_name :: string
  entity_type :: EntityType

record Dimension =
  dimension_name :: string

record 'md SemanticModel =
  model_name :: string
  primary_entity :: "string option"
  measures :: "Measure list"
  entities :: "Entity list"
  dimensions :: "Dimension list"
  model_metadata :: 'md

record 'md Metric =
  metric_name :: string
  metric_metadata :: 'md

record 'md SemanticManifest =
  semantic_models :: "'md SemanticModel list"
  metrics :: "'md Metric list"

text \<open>
  The reference classes are declared outside the file, in \<^verbatim>\<open>references.py\<close>. The
  property \<^verbatim>\<open>reference\<close> of a measure returns a \<^verbatim>\<open>MeasureReference\<close>, that of an entity
  an \<^verbatim>\<open>EntityReference\<close> and that of a dimension a \<^verbatim>\<open>DimensionReference\<close>: frozen
  dataclasses under \<^verbatim>\<open>ElementReference\<close> with the one field \<^verbatim>\<open>element_name\<close>. Two
  references are equal, and the same dictionary key, when they are of the same class
  and carry the same name; references of different classes are different keys whatever
  their names.
\<close>

datatype ElementReference =
    MeasureReference (element_name: string)
  | EntityReference (element_name: string)
  | DimensionReference (element_name: string)

definition measure_reference :: "Measure \<Rightarrow> ElementReference" where
  "measure_reference m = MeasureReference (measure_name m)"

definition entity_reference :: "Entity \<Rightarrow> ElementReference" where
  "entity_reference e = EntityReference (entity_name e)"

definition dimension_reference :: "Dimension \<Rightarrow> ElementReference" where
  "dimension_reference d = DimensionReference (dimension_name d)"

subsection \<open>UniqueAndValidNameRule: the elements of a semantic model\<close>

text \<open>
  The functions of the two rules are decorated with \<^verbatim>\<open>validate_safely\<close>, declared outside
  the file, which receives what the function raises. The model is the undecorated
  function: a raise is \<open>Inl e\<close>.
\<close>

type_synonym 'md element_info = "ElementReference \<times> string \<times> 'md ValidationContext"

text \<open>The three loops that fill \<^verbatim>\<open>element_info_tuples\<close>, each under its guard.\<close>

definition element_info_tuples :: "'md SemanticModel \<Rightarrow> 'md element_info list" where
  "element_info_tuples semantic_model =
     (if measures semantic_model \<noteq> [] then
        map (\<lambda>measure.
              (measure_reference measure, ''measure'',
               SemanticModelElementContext (from_metadata (model_metadata semantic_model))
                 (SemanticModelElementReference (model_name semantic_model) (measure_name measure))
                 MEASURE))
          (measures semantic_model)
      else []) @
     (if entities semantic_model \<noteq> [] then
        map (\<lambda>entity.
              (entity_reference entity, ''entity'',
               SemanticModelElementContext (from_metadata (model_metadata semantic_model))
                 (SemanticModelElementReference (model_name semantic_model) (entity_name entity))
                 ENTITY))
          (entities semantic_model)
      else []) @
     (if dimensions semantic_model \<noteq> [] then
        map (\<lambda>dimension.
              (dimension_reference dimension, ''dimension'',
               SemanticModelElementContext (from_metadata (model_metadata semantic_model))
                 (SemanticModelElementReference (model_name semantic_model)
                    (dimension_name dimension))
                 DIMENSION))
          (dimensions semantic_model)
      else [])"

definition element_duplicate_message :: "string \<Rightarrow> string \<Rightarrow> string \<Rightarrow> string \<Rightarrow> string" where
  "element_duplicate_message semantic_model_name name type first_type =
     ''In semantic model `'' @ semantic_model_name @ ''`, can'' @ [CHR 0x27] @ ''t use name `'' @
     name @ ''` for '' @ ''a '' @ type @ '' when it was already used for a '' @ first_type"

text \<open>
  The loop over \<^verbatim>\<open>element_info_tuples\<close> that fills the dictionary \<^verbatim>\<open>name_to_type\<close>; the
  result is the issues it appends, in order.
\<close>

fun element_duplicates ::
  "string \<Rightarrow> (ElementReference \<rightharpoonup> string) \<Rightarrow> 'md element_info list \<Rightarrow> 'md ValidationIssue list"
where
  "element_duplicates semantic_model_name name_to_type [] = []"
| "element_duplicates semantic_model_name name_to_type ((name, type, context) # rest) =
     (case name_to_type name of
        Some first_type \<Rightarrow>
          ValidationError (Some context)
            (element_duplicate_message semantic_model_name (element_name name) type first_type)
          # element_duplicates semantic_model_name name_to_type rest
      | None \<Rightarrow>
          element_duplicates semantic_model_name (name_to_type(name \<mapsto> type)) rest)"

text \<open>The second loop: \<^verbatim>\<open>check_valid_name\<close> on every collected name.\<close>

fun element_name_checks ::
  "string list \<Rightarrow> 'md element_info list \<Rightarrow> py_error + 'md ValidationIssue list"
where
  "element_name_checks list_names [] = Inr []"
| "element_name_checks list_names ((name, type, context) # rest) =
     (case check_valid_name list_names (element_name name) (Some context) of
        Inl e \<Rightarrow> Inl e
      | Inr issues \<Rightarrow>
          (case element_name_checks list_names rest of
             Inl e \<Rightarrow> Inl e
           | Inr later \<Rightarrow> Inr (issues @ later)))"

definition validate_semantic_model_elements ::
  "string list \<Rightarrow> 'md SemanticModel \<Rightarrow> py_error + 'md ValidationIssue list"
where
  "validate_semantic_model_elements list_names semantic_model =
     (let tuples = element_info_tuples semantic_model;
          issues = element_duplicates (model_name semantic_model) Map.empty tuples
      in case element_name_checks list_names tuples of
           Inl e \<Rightarrow> Inl e
         | Inr later \<Rightarrow> Inr (issues @ later))"

subsection \<open>UniqueAndValidNameRule: the top-level objects\<close>

type_synonym 'md object_info = "string \<times> string \<times> 'md ValidationContext"

definition semantic_model_context :: "'md SemanticModel \<Rightarrow> 'md ValidationContext" where
  "semantic_model_context semantic_model =
     SemanticModelContext (from_metadata (model_metadata semantic_model))
       (SemanticModelReference (model_name semantic_model))"

definition metric_context :: "'md Metric \<Rightarrow> 'md ValidationContext" where
  "metric_context metric =
     MetricContext (from_metadata (metric_metadata metric))
       (MetricModelReference (metric_name metric))"

text \<open>
  The loop over the semantic models: it appends to \<^verbatim>\<open>object_info_tuples\<close> and extends
  \<^verbatim>\<open>issues\<close> by the name check; the result is the pair of both.
\<close>

fun collect_semantic_models ::
  "string list \<Rightarrow> 'md SemanticModel list \<Rightarrow>
   py_error + ('md object_info list \<times> 'md ValidationIssue list)"
where
  "collect_semantic_models list_names [] = Inr ([], [])"
| "collect_semantic_models list_names (semantic_model # rest) =
     (let context = semantic_model_context semantic_model
      in case check_valid_name list_names (model_name semantic_model) (Some context) of
           Inl e \<Rightarrow> Inl e
         | Inr issues \<Rightarrow>
             (case collect_semantic_models list_names rest of
                Inl e \<Rightarrow> Inl e
              | Inr (tuples, later) \<Rightarrow>
                  Inr ((model_name semantic_model, ''semantic model'', context) # tuples,
                       issues @ later)))"

definition object_duplicate_message :: "string \<Rightarrow> string \<Rightarrow> string \<Rightarrow> string" where
  "object_duplicate_message name type first_type =
     ''Can'' @ [CHR 0x27] @ ''t use name `'' @ name @ ''` for a '' @ type @
     '' when it was already used for a '' @ first_type"

fun object_duplicates ::
  "(string \<rightharpoonup> string) \<Rightarrow> 'md object_info list \<Rightarrow> 'md ValidationIssue list"
where
  "object_duplicates name_to_type [] = []"
| "object_duplicates name_to_type ((name, type, context) # rest) =
     (case name_to_type name of
        Some first_type \<Rightarrow>
          ValidationError (Some context) (object_duplicate_message name type first_type)
          # object_duplicates name_to_type rest
      | None \<Rightarrow> object_duplicates (name_to_type(name \<mapsto> type)) rest)"

definition metric_duplicate_message :: "string \<Rightarrow> string" where
  "metric_duplicate_message name =
     ''Can'' @ [CHR 0x27] @ ''t use name `'' @ name @
     ''` for a metric when it was already used for '' @ ''a metric''"

text \<open>The loop over the metrics, with the set \<^verbatim>\<open>metric_names\<close>.\<close>

fun check_metrics ::
  "string list \<Rightarrow> string set \<Rightarrow> 'md Metric list \<Rightarrow> py_error + 'md ValidationIssue list"
where
  "check_metrics list_names metric_names [] = Inr []"
| "check_metrics list_names metric_names (metric # rest) =
     (let context = metric_context metric
      in case check_valid_name list_names (metric_name metric) (Some context) of
           Inl e \<Rightarrow> Inl e
         | Inr issues \<Rightarrow>
             (if metric_name metric \<in> metric_names then
                (case check_metrics list_names metric_names rest of
                   Inl e \<Rightarrow> Inl e
                 | Inr later \<Rightarrow>
                     Inr (issues @
                          [ValidationError (Some context)
                             (metric_duplicate_message (metric_name metric))] @ later))
              else
                (case check_metrics list_names (insert (metric_name metric) metric_names) rest of
                   Inl e \<Rightarrow> Inl e
                 | Inr later \<Rightarrow> Inr (issues @ later))))"

definition validate_top_level_objects ::
  "string list \<Rightarrow> 'md SemanticManifest \<Rightarrow> py_error + 'md ValidationIssue list"
where
  "validate_top_level_objects list_names semantic_manifest =
     (case (if semantic_models semantic_manifest \<noteq> []
            then collect_semantic_models list_names (semantic_models semantic_manifest)
            else Inr ([], [])) of
        Inl e \<Rightarrow> Inl e
      | Inr (object_info_tuples, issues) \<Rightarrow>
          (let issues = issues @ object_duplicates Map.empty object_info_tuples
           in if metrics semantic_manifest \<noteq> [] then
                (case check_metrics list_names {} (metrics semantic_manifest) of
                   Inl e \<Rightarrow> Inl e
                 | Inr later \<Rightarrow> Inr (issues @ later))
              else Inr issues))"

text \<open>The loop of \<^verbatim>\<open>validate_manifest\<close> over the semantic models.\<close>

fun validate_all_elements ::
  "string list \<Rightarrow> 'md SemanticModel list \<Rightarrow> py_error + 'md ValidationIssue list"
where
  "validate_all_elements list_names [] = Inr []"
| "validate_all_elements list_names (semantic_model # rest) =
     (case validate_semantic_model_elements list_names semantic_model of
        Inl e \<Rightarrow> Inl e
      | Inr issues \<Rightarrow>
          (case validate_all_elements list_names rest of
             Inl e \<Rightarrow> Inl e
           | Inr later \<Rightarrow> Inr (issues @ later)))"

text \<open>\<^verbatim>\<open>UniqueAndValidNameRule.validate_manifest\<close>.\<close>

definition unique_validate_manifest ::
  "string list \<Rightarrow> 'md SemanticManifest \<Rightarrow> py_error + 'md ValidationIssue list"
where
  "unique_validate_manifest list_names semantic_manifest =
     (case validate_top_level_objects list_names semantic_manifest of
        Inl e \<Rightarrow> Inl e
      | Inr issues \<Rightarrow>
          (case validate_all_elements list_names (semantic_models semantic_manifest) of
             Inl e \<Rightarrow> Inl e
           | Inr later \<Rightarrow> Inr (issues @ later)))"

subsection \<open>PrimaryEntityDimensionPairs\<close>

text \<open>The dictionary \<^verbatim>\<open>known_pairings\<close>: primary entity, then dimension name, to the owning model.\<close>

type_synonym pairings = "string \<rightharpoonup> (string \<rightharpoonup> string)"

text \<open>The loop over the entities, left at the first entity of type \<^verbatim>\<open>PRIMARY\<close>.\<close>

fun first_primary_entity :: "Entity list \<Rightarrow> string option" where
  "first_primary_entity [] = None"
| "first_primary_entity (entity # rest) =
     (if entity_type entity = PRIMARY then Some (entity_name entity)
      else first_primary_entity rest)"

definition resolve_primary_entity :: "'md SemanticModel \<Rightarrow> string option" where
  "resolve_primary_entity semantic_model =
     (case primary_entity semantic_model of
        None \<Rightarrow> first_primary_entity (entities semantic_model)
      | Some p \<Rightarrow> Some p)"

definition pairing_message :: "string \<Rightarrow> string \<Rightarrow> string \<Rightarrow> string \<Rightarrow> string" where
  "pairing_message semantic_model_name primary dimension owner =
     ''Duplicate dimension + primary entity pairing detected, dimension + primary entity '' @
     ''pairings must be unique. Semantic model `'' @ semantic_model_name @
     ''` has a primary entity of '' @
     ''`'' @ primary @ ''` and dimension `'' @ dimension @
     ''`, but this pairing is already in use on '' @
     ''semantic model `'' @ owner @ ''`.''"

definition pairing_context :: "'md SemanticModel \<Rightarrow> Dimension \<Rightarrow> 'md ValidationContext" where
  "pairing_context semantic_model dimension =
     SemanticModelElementContext (from_metadata (model_metadata semantic_model))
       (SemanticModelElementReference (model_name semantic_model) (dimension_name dimension))
       DIMENSION"

text \<open>
  The loop over the dimensions. The condition is \<^verbatim>\<open>safe or known_pairings[primary_entity]
  .get(dimension.name) is None\<close>: with \<open>safe\<close> the subscript is not evaluated. The
  assignment and the message evaluate the subscript \<^verbatim>\<open>known_pairings[primary_entity]\<close>.
  The result is the issues appended and the dictionary as the loop leaves it.
\<close>

fun check_dimensions ::
  "'md SemanticModel \<Rightarrow> string \<Rightarrow> bool \<Rightarrow> Dimension list \<Rightarrow> pairings \<Rightarrow>
   py_error + ('md ValidationIssue list \<times> pairings)"
where
  "check_dimensions semantic_model primary safe [] known_pairings = Inr ([], known_pairings)"
| "check_dimensions semantic_model primary safe (dimension # rest) known_pairings =
     (case known_pairings primary of
        None \<Rightarrow> Inl KeyError
      | Some registered \<Rightarrow>
          (if safe \<or> registered (dimension_name dimension) = None then
             check_dimensions semantic_model primary safe rest
               (known_pairings(primary \<mapsto>
                  registered(dimension_name dimension \<mapsto> model_name semantic_model)))
           else
             (case registered (dimension_name dimension) of
                None \<Rightarrow> Inl KeyError
              | Some owner \<Rightarrow>
                  (case check_dimensions semantic_model primary safe rest known_pairings of
                     Inl e \<Rightarrow> Inl e
                   | Inr (issues, known_pairings') \<Rightarrow>
                       Inr (ValidationError (Some (pairing_context semantic_model dimension))
                              (pairing_message (model_name semantic_model) primary
                                 (dimension_name dimension) owner)
                            # issues, known_pairings')))))"

text \<open>\<^verbatim>\<open>PrimaryEntityDimensionPairs._check_semantic_model\<close>.\<close>

definition check_semantic_model ::
  "'md SemanticModel \<Rightarrow> pairings \<Rightarrow> py_error + ('md ValidationIssue list \<times> pairings)"
where
  "check_semantic_model semantic_model known_pairings =
     (case resolve_primary_entity semantic_model of
        None \<Rightarrow> Inr ([], known_pairings)
      | Some primary \<Rightarrow>
          (if known_pairings primary = None then
             check_dimensions semantic_model primary True (dimensions semantic_model)
               (known_pairings(primary \<mapsto> Map.empty))
           else
             check_dimensions semantic_model primary False (dimensions semantic_model)
               known_pairings))"

text \<open>The loop of \<^verbatim>\<open>validate_manifest\<close>, one dictionary threaded through the models.\<close>

fun check_semantic_models ::
  "'md SemanticModel list \<Rightarrow> pairings \<Rightarrow> py_error + ('md ValidationIssue list \<times> pairings)"
where
  "check_semantic_models [] known_pairings = Inr ([], known_pairings)"
| "check_semantic_models (semantic_model # rest) known_pairings =
     (case check_semantic_model semantic_model known_pairings of
        Inl e \<Rightarrow> Inl e
      | Inr (issues, known_pairings') \<Rightarrow>
          (case check_semantic_models rest known_pairings' of
             Inl e \<Rightarrow> Inl e
           | Inr (later, known_pairings'') \<Rightarrow> Inr (issues @ later, known_pairings'')))"

text \<open>\<^verbatim>\<open>PrimaryEntityDimensionPairs.validate_manifest\<close>.\<close>

definition pairs_validate_manifest ::
  "'md SemanticManifest \<Rightarrow> py_error + 'md ValidationIssue list"
where
  "pairs_validate_manifest semantic_manifest =
     (case check_semantic_models (semantic_models semantic_manifest) Map.empty of
        Inl e \<Rightarrow> Inl e
      | Inr (issues, known_pairings) \<Rightarrow> Inr issues)"

subsection \<open>The issues of check_valid_name, by kind\<close>

definition syntax_issues ::
  "string \<Rightarrow> 'md ValidationContext option \<Rightarrow> 'md ValidationIssue list"
where
  "syntax_issues name context =
     (if NAME_REGEX_match name then [] else [ValidationError context (syntax_message name)])"

definition granularity_issues ::
  "string list \<Rightarrow> string \<Rightarrow> 'md ValidationContext option \<Rightarrow> 'md ValidationIssue list"
where
  "granularity_issues list_names name context =
     (if upper name \<in> set list_names
      then [ValidationError context (granularity_message list_names name)]
      else [])"

definition metric_time_reason :: string where
  "metric_time_reason =
     ''Used as the query input for creating time series metrics from measures with '' @
     ''different time dimension names.''"

definition mf_internal_uuid_reason :: string where
  "mf_internal_uuid_reason =
     ''Used internally to reference a column that has a uuid generated by MetricFlow.''"

definition reserved_issues ::
  "string \<Rightarrow> 'md ValidationContext option \<Rightarrow> 'md ValidationIssue list"
where
  "reserved_issues name context =
     (if lower name = ''metric_time''
      then [ValidationError context (reserved_message name metric_time_reason)]
      else if lower name = ''mf_internal_uuid''
      then [ValidationError context (reserved_message name mf_internal_uuid_reason)]
      else [])"

definition valid_name_issues ::
  "string list \<Rightarrow> string \<Rightarrow> 'md ValidationContext option \<Rightarrow> 'md ValidationIssue list"
where
  "valid_name_issues list_names name context =
     syntax_issues name context @ granularity_issues list_names name context @
     reserved_issues name context"

subsection \<open>First-seen-wins duplicate detection, as the spec words it\<close>

text \<open>
  The elements are taken in order; an element whose name is the name of an earlier
  element, of whatever kind, yields one error, citing its own kind and the kind of the
  first earlier element of that name.
\<close>

fun first_seen_duplicates ::
  "string \<Rightarrow> 'md element_info list \<Rightarrow> 'md element_info list \<Rightarrow> 'md ValidationIssue list"
where
  "first_seen_duplicates semantic_model_name earlier [] = []"
| "first_seen_duplicates semantic_model_name earlier ((name, type, context) # rest) =
     (case find (\<lambda>element. element_name (fst element) = element_name name) earlier of
        Some (n, first_type, c) \<Rightarrow>
          [ValidationError (Some context)
             (element_duplicate_message semantic_model_name (element_name name) type first_type)]
      | None \<Rightarrow> []) @
     first_seen_duplicates semantic_model_name (earlier @ [(name, type, context)]) rest"

subsection \<open>The pairing rule with an unconditional lookup\<close>

text \<open>
  The rule as the spec's open question rewrites it: the condition of the loop over the
  dimensions is the lookup \<^verbatim>\<open>known_pairings[primary_entity].get(dimension.name) is None\<close>
  alone, whether or not the dictionary of the primary entity was just created.
\<close>

definition check_semantic_model_lookup ::
  "'md SemanticModel \<Rightarrow> pairings \<Rightarrow> py_error + ('md ValidationIssue list \<times> pairings)"
where
  "check_semantic_model_lookup semantic_model known_pairings =
     (case resolve_primary_entity semantic_model of
        None \<Rightarrow> Inr ([], known_pairings)
      | Some primary \<Rightarrow>
          (if known_pairings primary = None then
             check_dimensions semantic_model primary False (dimensions semantic_model)
               (known_pairings(primary \<mapsto> Map.empty))
           else
             check_dimensions semantic_model primary False (dimensions semantic_model)
               known_pairings))"

fun check_semantic_models_lookup ::
  "'md SemanticModel list \<Rightarrow> pairings \<Rightarrow> py_error + ('md ValidationIssue list \<times> pairings)"
where
  "check_semantic_models_lookup [] known_pairings = Inr ([], known_pairings)"
| "check_semantic_models_lookup (semantic_model # rest) known_pairings =
     (case check_semantic_model_lookup semantic_model known_pairings of
        Inl e \<Rightarrow> Inl e
      | Inr (issues, known_pairings') \<Rightarrow>
          (case check_semantic_models_lookup rest known_pairings' of
             Inl e \<Rightarrow> Inl e
           | Inr (later, known_pairings'') \<Rightarrow> Inr (issues @ later, known_pairings'')))"

definition pairs_validate_manifest_lookup ::
  "'md SemanticManifest \<Rightarrow> py_error + 'md ValidationIssue list"
where
  "pairs_validate_manifest_lookup semantic_manifest =
     (case check_semantic_models_lookup (semantic_models semantic_manifest) Map.empty of
        Inl e \<Rightarrow> Inl e
      | Inr (issues, known_pairings) \<Rightarrow> Inr issues)"

subsection \<open>Pairings of a manifest\<close>

text \<open>No dimension name is declared twice in the semantic model.\<close>

definition distinct_dimensions :: "'md SemanticModel \<Rightarrow> bool" where
  "distinct_dimensions semantic_model =
     distinct (map dimension_name (dimensions semantic_model))"

text \<open>The (primary entity, dimension name) pairs a semantic model uses.\<close>

definition pairs_of :: "'md SemanticModel \<Rightarrow> (string \<times> string) list" where
  "pairs_of semantic_model =
     (case resolve_primary_entity semantic_model of
        None \<Rightarrow> []
      | Some primary \<Rightarrow>
          map (\<lambda>dimension. (primary, dimension_name dimension)) (dimensions semantic_model))"

text \<open>Some pair is used by two semantic models, at different places of the list.\<close>

fun shared_pairing :: "'md SemanticModel list \<Rightarrow> bool" where
  "shared_pairing [] = False"
| "shared_pairing (semantic_model # rest) =
     (list_ex (\<lambda>other. list_ex (\<lambda>pair. pair \<in> set (pairs_of other)) (pairs_of semantic_model))
        rest \<or>
      shared_pairing rest)"

text \<open>
  The loop over the dimensions on the dictionary of one primary entity: the issues and
  the dictionary after the loop.
\<close>

fun register_dimensions ::
  "'md SemanticModel \<Rightarrow> string \<Rightarrow> bool \<Rightarrow> Dimension list \<Rightarrow> (string \<rightharpoonup> string) \<Rightarrow>
   'md ValidationIssue list \<times> (string \<rightharpoonup> string)"
where
  "register_dimensions semantic_model primary safe [] registered = ([], registered)"
| "register_dimensions semantic_model primary safe (dimension # rest) registered =
     (case (if safe then None else registered (dimension_name dimension)) of
        None \<Rightarrow>
          register_dimensions semantic_model primary safe rest
            (registered(dimension_name dimension \<mapsto> model_name semantic_model))
      | Some owner \<Rightarrow>
          (let (issues, registered') =
                 register_dimensions semantic_model primary safe rest registered
           in (ValidationError (Some (pairing_context semantic_model dimension))
                 (pairing_message (model_name semantic_model) primary
                    (dimension_name dimension) owner)
               # issues, registered')))"

text \<open>The pairs registered in a dictionary.\<close>

definition registered_pairs :: "pairings \<Rightarrow> (string \<times> string) set" where
  "registered_pairs known_pairings =
     {(primary, dimension). \<exists>registered owner.
        known_pairings primary = Some registered \<and> registered dimension = Some owner}"

text \<open>A resolution of the primary entity in the spec's words.\<close>

definition declared_or_first_primary :: "'md SemanticModel \<Rightarrow> string option" where
  "declared_or_first_primary semantic_model =
     (case primary_entity semantic_model of
        Some declared \<Rightarrow> Some declared
      | None \<Rightarrow>
          (case filter (\<lambda>entity. entity_type entity = PRIMARY) (entities semantic_model) of
             [] \<Rightarrow> None
           | entity # _ \<Rightarrow> Some (entity_name entity)))"

subsection \<open>The rules as state transformers\<close>

text \<open>
  The same functions once more, with the objects they work on in one state: the
  manifest the caller passes, and the containers each function allocates (the lists
  \<^verbatim>\<open>issues\<close>, \<^verbatim>\<open>element_info_tuples\<close> and \<^verbatim>\<open>object_info_tuples\<close>, the dictionaries
  \<^verbatim>\<open>name_to_type\<close> and \<^verbatim>\<open>known_pairings\<close>, the set \<^verbatim>\<open>metric_names\<close>). An assignment, an
  \<^verbatim>\<open>append\<close>, a \<^verbatim>\<open>+=\<close> or an \<^verbatim>\<open>add\<close> of the source is an update of the field of its
  target. A semantic model is the place \<open>i\<close> of the manifest in the state, and a loop
  over a list of the manifest reads its element at place \<open>j\<close> from the state at each
  turn. What a function returns is the field \<^verbatim>\<open>issues\<close> of its own.
\<close>

record 'md heap =
  manifest :: "'md SemanticManifest"
  el_tuples :: "'md element_info list"
  el_name_to_type :: "ElementReference \<rightharpoonup> string"
  el_issues :: "'md ValidationIssue list"
  tl_tuples :: "'md object_info list"
  tl_name_to_type :: "string \<rightharpoonup> string"
  tl_metric_names :: "string set"
  tl_issues :: "'md ValidationIssue list"
  vm_issues :: "'md ValidationIssue list"
  cs_issues :: "'md ValidationIssue list"
  pm_known_pairings :: pairings
  pm_issues :: "'md ValidationIssue list"

definition model_at :: "'md heap \<Rightarrow> nat \<Rightarrow> 'md SemanticModel" where
  "model_at s i = semantic_models (manifest s) ! i"

text \<open>\<^verbatim>\<open>PrimaryEntityDimensionPairs._check_semantic_model\<close>: the loop over the dimensions.\<close>

fun check_dimensions_st ::
  "nat \<Rightarrow> string \<Rightarrow> bool \<Rightarrow> nat list \<Rightarrow> 'md heap \<Rightarrow> py_error + 'md heap"
where
  "check_dimensions_st i primary safe [] s = Inr s"
| "check_dimensions_st i primary safe (j # js) s =
     (let dimension = dimensions (model_at s i) ! j
      in case pm_known_pairings s primary of
           None \<Rightarrow> Inl KeyError
         | Some registered \<Rightarrow>
             (if safe \<or> registered (dimension_name dimension) = None then
                check_dimensions_st i primary safe js
                  (s\<lparr>pm_known_pairings := (pm_known_pairings s)(primary \<mapsto>
                       registered(dimension_name dimension \<mapsto> model_name (model_at s i)))\<rparr>)
              else
                (case registered (dimension_name dimension) of
                   None \<Rightarrow> Inl KeyError
                 | Some owner \<Rightarrow>
                     check_dimensions_st i primary safe js
                       (s\<lparr>cs_issues := cs_issues s @
                            [ValidationError (Some (pairing_context (model_at s i) dimension))
                               (pairing_message (model_name (model_at s i)) primary
                                  (dimension_name dimension) owner)]\<rparr>))))"

definition check_semantic_model_st :: "nat \<Rightarrow> 'md heap \<Rightarrow> py_error + 'md heap" where
  "check_semantic_model_st i s0 =
     (let s = s0\<lparr>cs_issues := []\<rparr>
      in case resolve_primary_entity (model_at s i) of
           None \<Rightarrow> Inr s
         | Some primary \<Rightarrow>
             (if pm_known_pairings s primary = None then
                check_dimensions_st i primary True [0..<length (dimensions (model_at s i))]
                  (s\<lparr>pm_known_pairings := (pm_known_pairings s)(primary \<mapsto> Map.empty)\<rparr>)
              else
                check_dimensions_st i primary False [0..<length (dimensions (model_at s i))]
                  s))"

fun check_semantic_models_st :: "nat list \<Rightarrow> 'md heap \<Rightarrow> py_error + 'md heap" where
  "check_semantic_models_st [] s = Inr s"
| "check_semantic_models_st (i # rest) s =
     (case check_semantic_model_st i s of
        Inl e \<Rightarrow> Inl e
      | Inr s' \<Rightarrow> check_semantic_models_st rest (s'\<lparr>pm_issues := pm_issues s' @ cs_issues s'\<rparr>))"

text \<open>\<^verbatim>\<open>PrimaryEntityDimensionPairs.validate_manifest\<close>; it returns \<open>pm_issues\<close>.\<close>

definition pairs_validate_manifest_st :: "'md heap \<Rightarrow> py_error + 'md heap" where
  "pairs_validate_manifest_st s0 =
     (let s = s0\<lparr>pm_issues := [], pm_known_pairings := Map.empty\<rparr>
      in check_semantic_models_st [0..<length (semantic_models (manifest s))] s)"

text \<open>
  \<^verbatim>\<open>UniqueAndValidNameRule._validate_semantic_model_elements\<close>: the three loops that
  append to \<^verbatim>\<open>element_info_tuples\<close>, the loop that fills \<^verbatim>\<open>name_to_type\<close>, the loop of
  the name checks.
\<close>

fun collect_measures_st :: "nat \<Rightarrow> nat list \<Rightarrow> 'md heap \<Rightarrow> 'md heap" where
  "collect_measures_st i [] s = s"
| "collect_measures_st i (j # js) s =
     collect_measures_st i js
       (s\<lparr>el_tuples := el_tuples s @
            [(measure_reference (measures (model_at s i) ! j), ''measure'',
              SemanticModelElementContext (from_metadata (model_metadata (model_at s i)))
                (SemanticModelElementReference (model_name (model_at s i))
                   (measure_name (measures (model_at s i) ! j)))
                MEASURE)]\<rparr>)"

fun collect_entities_st :: "nat \<Rightarrow> nat list \<Rightarrow> 'md heap \<Rightarrow> 'md heap" where
  "collect_entities_st i [] s = s"
| "collect_entities_st i (j # js) s =
     collect_entities_st i js
       (s\<lparr>el_tuples := el_tuples s @
            [(entity_reference (entities (model_at s i) ! j), ''entity'',
              SemanticModelElementContext (from_metadata (model_metadata (model_at s i)))
                (SemanticModelElementReference (model_name (model_at s i))
                   (entity_name (entities (model_at s i) ! j)))
                ENTITY)]\<rparr>)"

fun collect_dimensions_st :: "nat \<Rightarrow> nat list \<Rightarrow> 'md heap \<Rightarrow> 'md heap" where
  "collect_dimensions_st i [] s = s"
| "collect_dimensions_st i (j # js) s =
     collect_dimensions_st i js
       (s\<lparr>el_tuples := el_tuples s @
            [(dimension_reference (dimensions (model_at s i) ! j), ''dimension'',
              SemanticModelElementContext (from_metadata (model_metadata (model_at s i)))
                (SemanticModelElementReference (model_name (model_at s i))
                   (dimension_name (dimensions (model_at s i) ! j)))
                DIMENSION)]\<rparr>)"

fun element_duplicates_st :: "nat \<Rightarrow> 'md element_info list \<Rightarrow> 'md heap \<Rightarrow> 'md heap" where
  "element_duplicates_st i [] s = s"
| "element_duplicates_st i ((name, type, context) # rest) s =
     (case el_name_to_type s name of
        Some first_type \<Rightarrow>
          element_duplicates_st i rest
            (s\<lparr>el_issues := el_issues s @
                 [ValidationError (Some context)
                    (element_duplicate_message (model_name (model_at s i)) (element_name name)
                       type first_type)]\<rparr>)
      | None \<Rightarrow>
          element_duplicates_st i rest
            (s\<lparr>el_name_to_type := (el_name_to_type s)(name \<mapsto> type)\<rparr>))"

fun element_name_checks_st ::
  "string list \<Rightarrow> 'md element_info list \<Rightarrow> 'md heap \<Rightarrow> py_error + 'md heap"
where
  "element_name_checks_st list_names [] s = Inr s"
| "element_name_checks_st list_names ((name, type, context) # rest) s =
     (case check_valid_name list_names (element_name name) (Some context) of
        Inl e \<Rightarrow> Inl e
      | Inr issues \<Rightarrow>
          element_name_checks_st list_names rest (s\<lparr>el_issues := el_issues s @ issues\<rparr>))"

definition validate_semantic_model_elements_st ::
  "string list \<Rightarrow> nat \<Rightarrow> 'md heap \<Rightarrow> py_error + 'md heap"
where
  "validate_semantic_model_elements_st list_names i s0 =
     (let s = s0\<lparr>el_issues := [], el_tuples := []\<rparr>;
          s = (if measures (model_at s i) \<noteq> []
               then collect_measures_st i [0..<length (measures (model_at s i))] s else s);
          s = (if entities (model_at s i) \<noteq> []
               then collect_entities_st i [0..<length (entities (model_at s i))] s else s);
          s = (if dimensions (model_at s i) \<noteq> []
               then collect_dimensions_st i [0..<length (dimensions (model_at s i))] s else s);
          s = s\<lparr>el_name_to_type := Map.empty\<rparr>;
          s = element_duplicates_st i (el_tuples s) s
      in element_name_checks_st list_names (el_tuples s) s)"

text \<open>\<^verbatim>\<open>UniqueAndValidNameRule._validate_top_level_objects\<close>.\<close>

fun collect_semantic_models_st ::
  "string list \<Rightarrow> nat list \<Rightarrow> 'md heap \<Rightarrow> py_error + 'md heap"
where
  "collect_semantic_models_st list_names [] s = Inr s"
| "collect_semantic_models_st list_names (i # rest) s =
     (let context = semantic_model_context (model_at s i);
          s1 = s\<lparr>tl_tuples := tl_tuples s @
                    [(model_name (model_at s i), ''semantic model'', context)]\<rparr>
      in case check_valid_name list_names (model_name (model_at s1 i)) (Some context) of
           Inl e \<Rightarrow> Inl e
         | Inr issues \<Rightarrow>
             collect_semantic_models_st list_names rest
               (s1\<lparr>tl_issues := tl_issues s1 @ issues\<rparr>))"

fun object_duplicates_st :: "'md object_info list \<Rightarrow> 'md heap \<Rightarrow> 'md heap" where
  "object_duplicates_st [] s = s"
| "object_duplicates_st ((name, type, context) # rest) s =
     (case tl_name_to_type s name of
        Some first_type \<Rightarrow>
          object_duplicates_st rest
            (s\<lparr>tl_issues := tl_issues s @
                 [ValidationError (Some context)
                    (object_duplicate_message name type first_type)]\<rparr>)
      | None \<Rightarrow>
          object_duplicates_st rest (s\<lparr>tl_name_to_type := (tl_name_to_type s)(name \<mapsto> type)\<rparr>))"

fun check_metrics_st :: "string list \<Rightarrow> nat list \<Rightarrow> 'md heap \<Rightarrow> py_error + 'md heap" where
  "check_metrics_st list_names [] s = Inr s"
| "check_metrics_st list_names (k # rest) s =
     (let context = metric_context (metrics (manifest s) ! k)
      in case check_valid_name list_names (metric_name (metrics (manifest s) ! k))
                (Some context) of
           Inl e \<Rightarrow> Inl e
         | Inr issues \<Rightarrow>
             (let s1 = s\<lparr>tl_issues := tl_issues s @ issues\<rparr>
              in if metric_name (metrics (manifest s1) ! k) \<in> tl_metric_names s1 then
                   check_metrics_st list_names rest
                     (s1\<lparr>tl_issues := tl_issues s1 @
                           [ValidationError (Some context)
                              (metric_duplicate_message
                                 (metric_name (metrics (manifest s1) ! k)))]\<rparr>)
                 else
                   check_metrics_st list_names rest
                     (s1\<lparr>tl_metric_names :=
                           insert (metric_name (metrics (manifest s1) ! k))
                             (tl_metric_names s1)\<rparr>)))"

definition validate_top_level_objects_st ::
  "string list \<Rightarrow> 'md heap \<Rightarrow> py_error + 'md heap"
where
  "validate_top_level_objects_st list_names s0 =
     (let s = s0\<lparr>tl_tuples := [], tl_issues := []\<rparr>
      in case (if semantic_models (manifest s) \<noteq> []
               then collect_semantic_models_st list_names
                      [0..<length (semantic_models (manifest s))] s
               else Inr s) of
           Inl e \<Rightarrow> Inl e
         | Inr s1 \<Rightarrow>
             (let s2 = s1\<lparr>tl_name_to_type := Map.empty\<rparr>;
                  s3 = object_duplicates_st (tl_tuples s2) s2
              in if metrics (manifest s3) \<noteq> [] then
                   check_metrics_st list_names [0..<length (metrics (manifest s3))]
                     (s3\<lparr>tl_metric_names := {}\<rparr>)
                 else Inr s3))"

text \<open>\<^verbatim>\<open>UniqueAndValidNameRule.validate_manifest\<close>; it returns \<open>vm_issues\<close>.\<close>

fun validate_all_elements_st ::
  "string list \<Rightarrow> nat list \<Rightarrow> 'md heap \<Rightarrow> py_error + 'md heap"
where
  "validate_all_elements_st list_names [] s = Inr s"
| "validate_all_elements_st list_names (i # rest) s =
     (case validate_semantic_model_elements_st list_names i s of
        Inl e \<Rightarrow> Inl e
      | Inr s' \<Rightarrow>
          validate_all_elements_st list_names rest
            (s'\<lparr>vm_issues := vm_issues s' @ el_issues s'\<rparr>))"

definition unique_validate_manifest_st ::
  "string list \<Rightarrow> 'md heap \<Rightarrow> py_error + 'md heap"
where
  "unique_validate_manifest_st list_names s0 =
     (let s = s0\<lparr>vm_issues := []\<rparr>
      in case validate_top_level_objects_st list_names s of
           Inl e \<Rightarrow> Inl e
         | Inr s1 \<Rightarrow>
             validate_all_elements_st list_names [0..<length (semantic_models (manifest s1))]
               (s1\<lparr>vm_issues := vm_issues s1 @ tl_issues s1\<rparr>))"

section \<open>Properties of check_valid_name\<close>

lemma keyword_of_value: "MetricFlowReservedKeywords_of (keyword_value k) = Inr k"
  by (cases k)
    (simp_all add: MetricFlowReservedKeywords_of_def MetricFlowReservedKeywords_members_def)

lemma reserved_reason_total:
  "get_reserved_reason k =
     Inr (case k of METRIC_TIME \<Rightarrow> metric_time_reason
          | MF_INTERNAL_UUID \<Rightarrow> mf_internal_uuid_reason)"
  by (cases k)
    (simp_all add: get_reserved_reason_def metric_time_reason_def mf_internal_uuid_reason_def)

lemma check_valid_name_issues:
  "check_valid_name list_names name context = Inr (valid_name_issues list_names name context)"
  by (simp add: check_valid_name_def valid_name_issues_def syntax_issues_def
      granularity_issues_def reserved_issues_def MetricFlowReservedKeywords_of_def
      MetricFlowReservedKeywords_members_def get_reserved_reason_def Let_def
      metric_time_reason_def mf_internal_uuid_reason_def)

lemma lower_upper_char: "lower_char (upper_char c) = lower_char c"
  by (auto simp add: lower_char_def upper_char_def is_lower_def is_upper_def)

lemma upper_lower_char: "upper_char (lower_char c) = upper_char c"
  by (auto simp add: lower_char_def upper_char_def is_lower_def is_upper_def)

lemma lower_upper: "lower (upper s) = lower s"
  by (simp add: lower_def upper_def lower_upper_char)

lemma upper_lower: "upper (lower s) = upper s"
  by (simp add: lower_def upper_def upper_lower_char)

lemma match_rest_lower: "match_rest cs \<Longrightarrow> lower cs = cs"
  by (induction cs)
    (auto simp add: lower_def lower_char_def is_lower_def is_upper_def is_digit_def
      is_underscore_def)

lemma NAME_REGEX_lower: "NAME_REGEX_match name \<Longrightarrow> lower name = name"
  using match_rest_lower
  by (cases name)
    (auto simp add: NAME_REGEX_match_def lower_def lower_char_def is_lower_def is_upper_def)

text \<open>The regular expression accepts exactly the names of the pattern in words.\<close>

lemma match_rest_in_words:
  "match_rest cs \<longleftrightarrow>
     cs \<noteq> [] \<and> (is_lower (last cs) \<or> is_digit (last cs)) \<and>
     list_all (\<lambda>c. is_lower c \<or> is_digit c \<or> is_underscore c) cs \<and> \<not> has_dunder cs"
proof (induction cs)
  case Nil
  then show ?case by simp
next
  case (Cons c cs)
  show ?case
  proof (cases cs)
    case Nil
    then show ?thesis by auto
  next
    case (Cons d ds)
    then show ?thesis using Cons.IH by auto
  qed
qed

lemma NAME_REGEX_in_words: "NAME_REGEX_match name \<longleftrightarrow> name_pattern name"
proof (cases name)
  case Nil
  then show ?thesis by (simp add: NAME_REGEX_match_def name_pattern_def)
next
  case (Cons c cs)
  have u: "is_lower c \<Longrightarrow> \<not> is_underscore c"
    by (simp add: is_lower_def is_underscore_def)
  show ?thesis
  proof (cases cs)
    case Nil
    then show ?thesis using Cons by (simp add: NAME_REGEX_match_def name_pattern_def)
  next
    case (Cons d ds)
    then show ?thesis
      using \<open>name = c # cs\<close> u
      by (auto simp add: NAME_REGEX_match_def name_pattern_def match_rest_in_words)
  qed
qed

text \<open>
  The pattern with \<^verbatim>\<open>$\<close> accepts the names of the source's pattern and the same names
  followed by one newline.
\<close>

lemma match_rest_dollar_iff:
  "match_rest_dollar cs \<longleftrightarrow>
     match_rest cs \<or> (\<exists>body. cs = body @ [CHR 0x0A] \<and> match_rest body)"
proof (induction cs)
  case Nil
  then show ?case by simp
next
  case (Cons c cs)
  have sw: "\<And>body. cs = body @ [CHR 0x0A] \<Longrightarrow> body \<noteq> [] \<Longrightarrow>
      starts_with_dunder (c # body) = starts_with_dunder (c # cs)"
    by (case_tac body) auto
  show ?case
  proof
    assume l: "match_rest_dollar (c # cs)"
    then consider "(is_lower c \<or> is_digit c) \<and> cs = []"
      | "(is_lower c \<or> is_digit c) \<and> cs = [CHR 0x0A]"
      | "\<not> starts_with_dunder (c # cs)" "is_lower c \<or> is_digit c \<or> is_underscore c"
        "match_rest_dollar cs"
      by auto
    then show "match_rest (c # cs) \<or> (\<exists>body. c # cs = body @ [CHR 0x0A] \<and> match_rest body)"
    proof cases
      case 1
      then show ?thesis by simp
    next
      case 2
      then have "c # cs = [c] @ [CHR 0x0A] \<and> match_rest [c]" by simp
      then show ?thesis by blast
    next
      case 3
      from 3(3) Cons.IH consider "match_rest cs"
        | body where "cs = body @ [CHR 0x0A]" "match_rest body" by blast
      then show ?thesis
      proof cases
        case 1
        then show ?thesis using 3 by simp
      next
        case 2
        then have ne: "body \<noteq> []" by auto
        have "match_rest (c # body)"
          using 2 3 sw [OF 2(1) ne] by simp
        moreover have "c # cs = (c # body) @ [CHR 0x0A]" using 2 by simp
        ultimately show ?thesis by blast
      qed
    qed
  next
    assume "match_rest (c # cs) \<or> (\<exists>body. c # cs = body @ [CHR 0x0A] \<and> match_rest body)"
    then consider "match_rest (c # cs)"
      | body where "c # cs = body @ [CHR 0x0A]" "match_rest body" by blast
    then show "match_rest_dollar (c # cs)"
    proof cases
      case 1
      then show ?thesis using Cons.IH by auto
    next
      case 2
      then obtain rest where b: "body = c # rest" by (cases body) auto
      then have cs: "cs = rest @ [CHR 0x0A]" using 2 by simp
      show ?thesis
      proof (cases rest)
        case Nil
        then show ?thesis using 2 b cs by simp
      next
        case (Cons d ds)
        then have "starts_with_dunder (c # rest) = starts_with_dunder (c # cs)"
          using sw [OF cs] by simp
        moreover have "match_rest_dollar cs"
          using 2(2) b Cons cs Cons.IH by auto
        ultimately show ?thesis using 2(2) b Cons by auto
      qed
    qed
  qed
qed

lemma claimed_regex_iff:
  "claimed_regex_match name \<longleftrightarrow>
     NAME_REGEX_match name \<or> (\<exists>body. name = body @ [CHR 0x0A] \<and> NAME_REGEX_match body)"
proof (cases name)
  case Nil
  then show ?thesis by (simp add: claimed_regex_match_def NAME_REGEX_match_def)
next
  case (Cons c cs)
  show ?thesis
  proof
    assume "claimed_regex_match name"
    then have c: "is_lower c" and "match_rest_dollar cs"
      using Cons by (simp_all add: claimed_regex_match_def)
    then consider "match_rest cs" | body where "cs = body @ [CHR 0x0A]" "match_rest body"
      using match_rest_dollar_iff by blast
    then show "NAME_REGEX_match name \<or>
        (\<exists>body. name = body @ [CHR 0x0A] \<and> NAME_REGEX_match body)"
    proof cases
      case 1
      then show ?thesis using c Cons by (simp add: NAME_REGEX_match_def)
    next
      case 2
      then have "name = (c # body) @ [CHR 0x0A] \<and> NAME_REGEX_match (c # body)"
        using c Cons by (simp add: NAME_REGEX_match_def)
      then show ?thesis by blast
    qed
  next
    assume "NAME_REGEX_match name \<or>
        (\<exists>body. name = body @ [CHR 0x0A] \<and> NAME_REGEX_match body)"
    then consider "NAME_REGEX_match name"
      | body where "name = body @ [CHR 0x0A]" "NAME_REGEX_match body" by blast
    then show "claimed_regex_match name"
    proof cases
      case 1
      then show ?thesis
        using Cons match_rest_dollar_iff
        by (auto simp add: claimed_regex_match_def NAME_REGEX_match_def)
    next
      case 2
      then obtain rest where "body = c # rest" "cs = rest @ [CHR 0x0A]"
        using Cons by (cases body) (auto simp add: NAME_REGEX_match_def)
      then show ?thesis
        using 2 Cons match_rest_dollar_iff
        by (auto simp add: claimed_regex_match_def NAME_REGEX_match_def)
    qed
  qed
qed

lemmas char_eval =
  upper_def upper_char_def lower_def lower_char_def is_lower_def is_upper_def is_digit_def
  is_underscore_def char_of_eq_iff

text \<open>
  Claim C9. \<^verbatim>\<open>check_valid_name\<close> returns a list of issues for every name, every list
  of granularity names and every context: it never raises. The enum construction
  \<^verbatim>\<open>MetricFlowReservedKeywords(name.lower())\<close> succeeds whenever its guard holds, and
  \<^verbatim>\<open>get_reserved_reason\<close> returns a reason for every keyword, so the branch of
  \<^verbatim>\<open>assert_values_exhausted\<close> is not reached.
\<close>

theorem check_valid_name_never_raises:
  "(\<exists>issues. check_valid_name list_names name context = Inr issues) \<and>
   (lower name \<in> set (map keyword_value MetricFlowReservedKeywords_members) \<longrightarrow>
      (\<exists>keyword. MetricFlowReservedKeywords_of (lower name) = Inr keyword)) \<and>
   (\<exists>reason. get_reserved_reason keyword = Inr reason)"
proof (intro conjI impI)
  show "\<exists>issues. check_valid_name list_names name context = Inr issues"
    by (simp add: check_valid_name_issues)
  show "\<exists>reason. get_reserved_reason keyword = Inr reason"
    by (simp add: reserved_reason_total)
  assume "lower name \<in> set (map keyword_value MetricFlowReservedKeywords_members)"
  then obtain k where "lower name = keyword_value k" by auto
  then show "\<exists>keyword. MetricFlowReservedKeywords_of (lower name) = Inr keyword"
    by (simp add: keyword_of_value)
qed

theorem check_valid_name_never_raises_witness:
  "lower ''Metric_Time'' \<in> set (map keyword_value MetricFlowReservedKeywords_members) \<and>
   (\<exists>issues. check_valid_name [''DAY''] ''Metric_Time'' (None :: unit ValidationContext option)
      = Inr issues) \<and>
   (\<exists>keyword. MetricFlowReservedKeywords_of (lower ''Metric_Time'') = Inr keyword) \<and>
   (\<exists>reason. get_reserved_reason METRIC_TIME = Inr reason)"
proof -
  have h: "lower ''Metric_Time'' \<in> set (map keyword_value MetricFlowReservedKeywords_members)"
    by (simp add: MetricFlowReservedKeywords_members_def char_eval)
  show ?thesis
    using h check_valid_name_never_raises
      [of "[''DAY'']" "''Metric_Time''" "None :: unit ValidationContext option" METRIC_TIME]
    by blast
qed

text \<open>
  Claim C4, as amended. A name that matches the pattern of the source,
  \<^verbatim>\<open>\A[a-z]((?!__)[a-z0-9_])*[a-z0-9]\Z\<close>, which ends where the string ends, and that
  equals, ignoring case, neither a time-granularity name nor the value of a reserved
  keyword gets the empty list of issues from \<^verbatim>\<open>check_valid_name\<close>.
\<close>

theorem valid_names_pass:
  assumes "NAME_REGEX_match name"
    and "\<forall>k \<in> set list_names. lower k \<noteq> lower name"
    and "\<forall>k \<in> set MetricFlowReservedKeywords_members. lower (keyword_value k) \<noteq> lower name"
  shows "check_valid_name list_names name context = Inr []"
proof -
  have "upper name \<notin> set list_names"
  proof
    assume "upper name \<in> set list_names"
    with assms(2) have "lower (upper name) \<noteq> lower name" by blast
    then show False by (simp add: lower_upper)
  qed
  moreover have "lower name \<noteq> ''metric_time''" "lower name \<noteq> ''mf_internal_uuid''"
    using assms(3) by (auto simp add: MetricFlowReservedKeywords_members_def char_eval)
  ultimately show ?thesis
    using assms(1)
    by (simp add: check_valid_name_issues valid_name_issues_def syntax_issues_def
        granularity_issues_def reserved_issues_def)
qed

theorem valid_names_pass_witness:
  "NAME_REGEX_match ''order_id2'' \<and>
   lower ''order_id2'' \<notin> lower ` set [''DAY'', ''WEEK''] \<and>
   lower ''order_id2'' \<notin> lower ` keyword_value ` set MetricFlowReservedKeywords_members \<and>
   check_valid_name [''DAY'', ''WEEK''] ''order_id2'' (None :: unit ValidationContext option)
     = Inr []"
proof -
  have h1: "NAME_REGEX_match ''order_id2''"
    by (simp add: NAME_REGEX_match_def is_lower_def is_digit_def is_underscore_def)
  have h2: "\<forall>k \<in> set [''DAY'', ''WEEK'']. lower k \<noteq> lower ''order_id2''"
    by (simp add: char_eval)
  have h3: "\<forall>k \<in> set MetricFlowReservedKeywords_members.
      lower (keyword_value k) \<noteq> lower ''order_id2''"
    by (simp add: MetricFlowReservedKeywords_members_def char_eval)
  have "check_valid_name [''DAY'', ''WEEK''] ''order_id2''
      (None :: unit ValidationContext option) = Inr []"
    using valid_names_pass [OF h1 h2 h3] .
  with h1 h2 h3 show ?thesis by (auto simp add: image_iff)
qed

text \<open>
  With the anchor \<^verbatim>\<open>$\<close> in place of \<^verbatim>\<open>\Z\<close> the statement fails: the name \<^verbatim>\<open>ab\<close>
  followed by a newline matches \<^verbatim>\<open>^[a-z]((?!__)[a-z0-9_])*[a-z0-9]$\<close>, is no keyword, and
  gets the syntax issue.
\<close>

theorem trailing_newline_counterexample:
  "claimed_regex_match [CHR ''a'', CHR ''b'', CHR 0x0A] \<and>
   lower [CHR ''a'', CHR ''b'', CHR 0x0A] \<notin> lower ` set [''DAY''] \<and>
   lower [CHR ''a'', CHR ''b'', CHR 0x0A] \<notin>
     lower ` keyword_value ` set MetricFlowReservedKeywords_members \<and>
   check_valid_name [''DAY''] [CHR ''a'', CHR ''b'', CHR 0x0A]
     (None :: unit ValidationContext option) =
     Inr [ValidationError None (syntax_message [CHR ''a'', CHR ''b'', CHR 0x0A])]"
proof -
  have l: "lower [CHR ''a'', CHR ''b'', CHR 0x0A] = [CHR ''a'', CHR ''b'', CHR 0x0A]"
    and u: "upper [CHR ''a'', CHR ''b'', CHR 0x0A] = [CHR ''A'', CHR ''B'', CHR 0x0A]"
    and k: "lower ''DAY'' = ''day''" "lower ''metric_time'' = ''metric_time''"
      "lower ''mf_internal_uuid'' = ''mf_internal_uuid''"
    by (simp_all add: char_eval)
  have c: "claimed_regex_match [CHR ''a'', CHR ''b'', CHR 0x0A]"
    by (simp add: claimed_regex_match_def is_lower_def is_digit_def is_underscore_def)
  have n: "\<not> NAME_REGEX_match [CHR ''a'', CHR ''b'', CHR 0x0A]"
    by (simp add: NAME_REGEX_match_def is_lower_def is_digit_def is_underscore_def)
  show ?thesis
    using c n
    by (simp add: check_valid_name_issues valid_name_issues_def syntax_issues_def
        granularity_issues_def reserved_issues_def MetricFlowReservedKeywords_members_def
        l u k)
qed

text \<open>
  Claim C5. Reserved names are flagged whatever their case. A name that is
  \<^verbatim>\<open>day\<close> up to case, with \<^verbatim>\<open>DAY\<close> among the granularity names, gets the
  time-granularity issue; a name that is \<^verbatim>\<open>metric_time\<close> or \<^verbatim>\<open>mf_internal_uuid\<close> up to
  case gets, as the last issue and the only one of its kind, the reserved-keyword issue,
  whose message ends with the reason of that keyword. A syntax issue, where the case
  variant does not match the pattern, comes before and removes nothing; the three
  lower-case names get no syntax issue.
\<close>

theorem reserved_names_flagged:
  "(lower name = ''day'' \<and> ''DAY'' \<in> set list_names \<longrightarrow>
      check_valid_name list_names name context =
        Inr (syntax_issues name context @
             [ValidationError context (granularity_message list_names name)])) \<and>
   (lower name = ''metric_time'' \<longrightarrow>
      check_valid_name list_names name context =
        Inr (syntax_issues name context @ granularity_issues list_names name context @
             [ValidationError context (reserved_message name metric_time_reason)])) \<and>
   (lower name = ''mf_internal_uuid'' \<longrightarrow>
      check_valid_name list_names name context =
        Inr (syntax_issues name context @ granularity_issues list_names name context @
             [ValidationError context (reserved_message name mf_internal_uuid_reason)])) \<and>
   syntax_issues ''day'' context = [] \<and>
   syntax_issues ''metric_time'' context = [] \<and>
   syntax_issues ''mf_internal_uuid'' context = [] \<and>
   reserved_message name reason =
     ''Invalid name `'' @ name @ ''` - this name is reserved by MetricFlow. Reason: '' @ reason \<and>
   metric_time_reason \<noteq> mf_internal_uuid_reason"
proof (intro conjI impI)
  assume day: "lower name = ''day'' \<and> ''DAY'' \<in> set list_names"
  then have "upper (lower name) = ''DAY''" by (simp add: char_eval)
  then have "upper name = ''DAY''" by (simp add: upper_lower)
  with day show "check_valid_name list_names name context =
      Inr (syntax_issues name context @
           [ValidationError context (granularity_message list_names name)])"
    by (simp add: check_valid_name_issues valid_name_issues_def granularity_issues_def
        reserved_issues_def)
next
  assume "lower name = ''metric_time''"
  then show "check_valid_name list_names name context =
      Inr (syntax_issues name context @ granularity_issues list_names name context @
           [ValidationError context (reserved_message name metric_time_reason)])"
    by (simp add: check_valid_name_issues valid_name_issues_def reserved_issues_def)
next
  assume "lower name = ''mf_internal_uuid''"
  then show "check_valid_name list_names name context =
      Inr (syntax_issues name context @ granularity_issues list_names name context @
           [ValidationError context (reserved_message name mf_internal_uuid_reason)])"
    by (simp add: check_valid_name_issues valid_name_issues_def reserved_issues_def)
next
  show "syntax_issues ''day'' context = []"
    by (simp add: syntax_issues_def NAME_REGEX_match_def is_lower_def is_digit_def
        is_underscore_def)
  show "syntax_issues ''metric_time'' context = []"
    by (simp add: syntax_issues_def NAME_REGEX_match_def is_lower_def is_digit_def
        is_underscore_def)
  show "syntax_issues ''mf_internal_uuid'' context = []"
    by (simp add: syntax_issues_def NAME_REGEX_match_def is_lower_def is_digit_def
        is_underscore_def)
  show "reserved_message name reason =
     ''Invalid name `'' @ name @ ''` - this name is reserved by MetricFlow. Reason: '' @ reason"
    by (simp add: reserved_message_def)
  show "metric_time_reason \<noteq> mf_internal_uuid_reason"
    by (simp add: metric_time_reason_def mf_internal_uuid_reason_def)
qed

theorem reserved_names_flagged_witness:
  "check_valid_name [''DAY''] ''Day'' (None :: unit ValidationContext option) =
     Inr [ValidationError None (syntax_message ''Day''),
          ValidationError None (granularity_message [''DAY''] ''Day'')] \<and>
   check_valid_name [''DAY''] ''day'' (None :: unit ValidationContext option) =
     Inr [ValidationError None (granularity_message [''DAY''] ''day'')] \<and>
   check_valid_name [''DAY''] ''Metric_Time'' (None :: unit ValidationContext option) =
     Inr [ValidationError None (syntax_message ''Metric_Time''),
          ValidationError None (reserved_message ''Metric_Time'' metric_time_reason)] \<and>
   check_valid_name [''DAY''] ''mf_internal_uuid'' (None :: unit ValidationContext option) =
     Inr [ValidationError None (reserved_message ''mf_internal_uuid'' mf_internal_uuid_reason)]"
proof -
  have l1: "lower ''Day'' = ''day'' \<and> ''DAY'' \<in> set [''DAY'']"
    and l2: "lower ''day'' = ''day'' \<and> ''DAY'' \<in> set [''DAY'']"
    and l3: "lower ''Metric_Time'' = ''metric_time''"
    and l4: "lower ''mf_internal_uuid'' = ''mf_internal_uuid''"
    by (simp_all add: char_eval)
  have s1: "syntax_issues ''Day'' (None :: unit ValidationContext option) =
      [ValidationError None (syntax_message ''Day'')]"
    and s3: "syntax_issues ''Metric_Time'' (None :: unit ValidationContext option) =
      [ValidationError None (syntax_message ''Metric_Time'')]"
    by (simp_all add: syntax_issues_def NAME_REGEX_match_def is_lower_def is_digit_def
        is_underscore_def)
  have g3: "granularity_issues [''DAY''] ''Metric_Time''
      (None :: unit ValidationContext option) = []"
    and g4: "granularity_issues [''DAY''] ''mf_internal_uuid''
      (None :: unit ValidationContext option) = []"
    by (simp_all add: granularity_issues_def char_eval)
  show ?thesis
    using l1 l2 l3 l4
      reserved_names_flagged [of "''Day''" "[''DAY'']" "None :: unit ValidationContext option"]
      reserved_names_flagged [of "''day''" "[''DAY'']" "None :: unit ValidationContext option"]
      reserved_names_flagged
        [of "''Metric_Time''" "[''DAY'']" "None :: unit ValidationContext option"]
      reserved_names_flagged
        [of "''mf_internal_uuid''" "[''DAY'']" "None :: unit ValidationContext option"]
    by (simp only: s1 s3 g3 g4 append_Nil append_Cons simp_thms)
qed

text \<open>
  Claim C6. Each of the names \<^verbatim>\<open>A_bad\<close>, \<^verbatim>\<open>bad_\<close>, \<^verbatim>\<open>ba__d\<close> and \<^verbatim>\<open>b\<close> gets exactly one
  issue, the syntax issue of the pattern, none of them being, in upper case, a
  time-granularity name.
\<close>

theorem malformed_names_get_one_syntax_issue:
  assumes "''A_BAD'' \<notin> set list_names" and "''BAD_'' \<notin> set list_names"
    and "''BA__D'' \<notin> set list_names" and "''B'' \<notin> set list_names"
  shows "check_valid_name list_names ''A_bad'' context =
           Inr [ValidationError context (syntax_message ''A_bad'')] \<and>
         check_valid_name list_names ''bad_'' context =
           Inr [ValidationError context (syntax_message ''bad_'')] \<and>
         check_valid_name list_names ''ba__d'' context =
           Inr [ValidationError context (syntax_message ''ba__d'')] \<and>
         check_valid_name list_names ''b'' context =
           Inr [ValidationError context (syntax_message ''b'')]"
proof -
  have u: "upper ''A_bad'' = ''A_BAD''" "upper ''bad_'' = ''BAD_''"
    "upper ''ba__d'' = ''BA__D''" "upper ''b'' = ''B''"
    by (simp_all add: char_eval)
  have l: "lower ''A_bad'' = ''a_bad''" "lower ''bad_'' = ''bad_''"
    "lower ''ba__d'' = ''ba__d''" "lower ''b'' = ''b''"
    by (simp_all add: char_eval)
  have m: "\<not> NAME_REGEX_match ''A_bad''" "\<not> NAME_REGEX_match ''bad_''"
    "\<not> NAME_REGEX_match ''ba__d''" "\<not> NAME_REGEX_match ''b''"
    by (simp_all add: NAME_REGEX_match_def is_lower_def is_digit_def is_underscore_def)
  show ?thesis
    using assms
    by (simp add: check_valid_name_issues valid_name_issues_def syntax_issues_def
        granularity_issues_def reserved_issues_def u l m)
qed

theorem malformed_names_get_one_syntax_issue_witness:
  "''A_BAD'' \<notin> set [''DAY'', ''WEEK''] \<and> ''BAD_'' \<notin> set [''DAY'', ''WEEK''] \<and>
   ''BA__D'' \<notin> set [''DAY'', ''WEEK''] \<and> ''B'' \<notin> set [''DAY'', ''WEEK''] \<and>
   check_valid_name [''DAY'', ''WEEK''] ''A_bad'' (None :: unit ValidationContext option) =
     Inr [ValidationError None (syntax_message ''A_bad'')] \<and>
   check_valid_name [''DAY'', ''WEEK''] ''bad_'' (None :: unit ValidationContext option) =
     Inr [ValidationError None (syntax_message ''bad_'')] \<and>
   check_valid_name [''DAY'', ''WEEK''] ''ba__d'' (None :: unit ValidationContext option) =
     Inr [ValidationError None (syntax_message ''ba__d'')] \<and>
   check_valid_name [''DAY'', ''WEEK''] ''b'' (None :: unit ValidationContext option) =
     Inr [ValidationError None (syntax_message ''b'')]"
proof -
  have h: "''A_BAD'' \<notin> set [''DAY'', ''WEEK'']" "''BAD_'' \<notin> set [''DAY'', ''WEEK'']"
    "''BA__D'' \<notin> set [''DAY'', ''WEEK'']" "''B'' \<notin> set [''DAY'', ''WEEK'']"
    by simp_all
  show ?thesis
    using h malformed_names_get_one_syntax_issue
      [OF h, of "None :: unit ValidationContext option"]
    by blast
qed

section \<open>Properties of UniqueAndValidNameRule\<close>


lemma element_name_checks_issues:
  "element_name_checks list_names tuples =
     Inr (concat (map (\<lambda>(name, type, context).
            valid_name_issues list_names (element_name name) (Some context)) tuples))"
  by (induction tuples) (auto simp add: check_valid_name_issues)

lemma validate_semantic_model_elements_issues:
  "validate_semantic_model_elements list_names semantic_model =
     Inr (element_duplicates (model_name semantic_model) Map.empty
            (element_info_tuples semantic_model) @
          concat (map (\<lambda>(name, type, context).
            valid_name_issues list_names (element_name name) (Some context))
            (element_info_tuples semantic_model)))"
  by (simp add: validate_semantic_model_elements_def element_name_checks_issues Let_def)

lemma element_info_tuples_order:
  "element_info_tuples semantic_model =
     map (\<lambda>measure.
            (measure_reference measure, ''measure'',
             SemanticModelElementContext (from_metadata (model_metadata semantic_model))
               (SemanticModelElementReference (model_name semantic_model) (measure_name measure))
               MEASURE))
       (measures semantic_model) @
     map (\<lambda>entity.
            (entity_reference entity, ''entity'',
             SemanticModelElementContext (from_metadata (model_metadata semantic_model))
               (SemanticModelElementReference (model_name semantic_model) (entity_name entity))
               ENTITY))
       (entities semantic_model) @
     map (\<lambda>dimension.
            (dimension_reference dimension, ''dimension'',
             SemanticModelElementContext (from_metadata (model_metadata semantic_model))
               (SemanticModelElementReference (model_name semantic_model)
                  (dimension_name dimension))
               DIMENSION))
       (dimensions semantic_model)"
  by (simp add: element_info_tuples_def)

lemma collect_semantic_models_issues:
  "collect_semantic_models list_names models =
     Inr (map (\<lambda>semantic_model.
                 (model_name semantic_model, ''semantic model'',
                  semantic_model_context semantic_model)) models,
          concat (map (\<lambda>semantic_model.
                 valid_name_issues list_names (model_name semantic_model)
                   (Some (semantic_model_context semantic_model))) models))"
  by (induction models) (auto simp add: check_valid_name_issues Let_def)

lemma orders_is_valid:
  "''ORDERS'' \<notin> set list_names \<Longrightarrow> valid_name_issues list_names ''orders'' context = []"
proof -
  assume a: "''ORDERS'' \<notin> set list_names"
  have "upper ''orders'' = ''ORDERS''" "lower ''orders'' = ''orders''"
    by (simp_all add: char_eval)
  moreover have "NAME_REGEX_match ''orders''"
    by (simp add: NAME_REGEX_match_def is_lower_def is_digit_def is_underscore_def)
  ultimately show ?thesis
    using a
    by (simp add: valid_name_issues_def syntax_issues_def granularity_issues_def
        reserved_issues_def)
qed

text \<open>
  Claim C3. \<^verbatim>\<open>_validate_semantic_model_elements\<close> collects the measures, then the
  entities, then the dimensions, and its loop reports an element whose key is already
  in \<^verbatim>\<open>name_to_type\<close>. The keys are the references, and a measure reference and a
  dimension reference of one name are different keys. For the semantic model
  \<^verbatim>\<open>orders\<close> with a measure \<^verbatim>\<open>x\<close> and a dimension \<^verbatim>\<open>x\<close> the loop reports nothing, and the
  function returns the two syntax issues of the one-character name only, where
  first-seen-wins detection by name yields the one error on the dimension, citing the
  measure. Within one kind the loop does report: of two measures \<^verbatim>\<open>x\<close>, the second.
\<close>

theorem cross_kind_duplicate_not_reported:
  "element_duplicates ''orders'' Map.empty
     (element_info_tuples
        \<lparr>model_name = ''orders'', primary_entity = None,
         measures = [\<lparr>measure_name = ''x''\<rparr>], entities = [],
         dimensions = [\<lparr>dimension_name = ''x''\<rparr>], model_metadata = ()\<rparr>) = [] \<and>
   validate_semantic_model_elements [''DAY'']
     \<lparr>model_name = ''orders'', primary_entity = None,
      measures = [\<lparr>measure_name = ''x''\<rparr>], entities = [],
      dimensions = [\<lparr>dimension_name = ''x''\<rparr>], model_metadata = ()\<rparr> =
     Inr [ValidationError
            (Some (SemanticModelElementContext (from_metadata ())
                     (SemanticModelElementReference ''orders'' ''x'') MEASURE))
            (syntax_message ''x''),
          ValidationError
            (Some (SemanticModelElementContext (from_metadata ())
                     (SemanticModelElementReference ''orders'' ''x'') DIMENSION))
            (syntax_message ''x'')] \<and>
   first_seen_duplicates ''orders'' []
     (element_info_tuples
        \<lparr>model_name = ''orders'', primary_entity = None,
         measures = [\<lparr>measure_name = ''x''\<rparr>], entities = [],
         dimensions = [\<lparr>dimension_name = ''x''\<rparr>], model_metadata = ()\<rparr>) =
     [ValidationError
        (Some (SemanticModelElementContext (from_metadata ())
                 (SemanticModelElementReference ''orders'' ''x'') DIMENSION))
        (''In semantic model `orders`, can'' @ [CHR 0x27] @
         ''t use name `x` for a dimension when it was already used for a measure'')] \<and>
   element_duplicates ''orders'' Map.empty
     (element_info_tuples
        \<lparr>model_name = ''orders'', primary_entity = None,
         measures = [\<lparr>measure_name = ''x''\<rparr>, \<lparr>measure_name = ''x''\<rparr>], entities = [],
         dimensions = [], model_metadata = ()\<rparr>) =
     [ValidationError
        (Some (SemanticModelElementContext (from_metadata ())
                 (SemanticModelElementReference ''orders'' ''x'') MEASURE))
        (''In semantic model `orders`, can'' @ [CHR 0x27] @
         ''t use name `x` for a measure when it was already used for a measure'')]"
proof -
  have v: "\<And>context :: unit ValidationContext option.
      valid_name_issues [''DAY''] ''x'' context = [ValidationError context (syntax_message ''x'')]"
    by (simp add: valid_name_issues_def syntax_issues_def granularity_issues_def
        reserved_issues_def NAME_REGEX_match_def char_eval)
  show ?thesis
    by (simp add: validate_semantic_model_elements_issues element_info_tuples_def
        measure_reference_def dimension_reference_def element_duplicate_message_def v)
qed

text \<open>
  Claim C7. For a manifest of exactly two semantic models, both named \<^verbatim>\<open>orders\<close> and
  without measures, entities or dimensions, and no metric, \<^verbatim>\<open>ORDERS\<close> not being a
  time-granularity name, \<^verbatim>\<open>UniqueAndValidNameRule.validate_manifest\<close> returns exactly one
  issue: the duplicate-name error, whose context is that of the second model.
\<close>

theorem duplicate_model_name_reported_once:
  assumes "semantic_models semantic_manifest = [first_model, second_model]"
    and "metrics semantic_manifest = []"
    and "model_name first_model = ''orders''" and "model_name second_model = ''orders''"
    and "measures first_model = []" and "entities first_model = []"
    and "dimensions first_model = []"
    and "measures second_model = []" and "entities second_model = []"
    and "dimensions second_model = []"
    and "''ORDERS'' \<notin> set list_names"
  shows "unique_validate_manifest list_names semantic_manifest =
     Inr [ValidationError
            (Some (SemanticModelContext (from_metadata (model_metadata second_model))
                     (SemanticModelReference ''orders'')))
            (''Can'' @ [CHR 0x27] @ ''t use name `orders` for a semantic model when it '' @
             ''was already used for a semantic model'')]"
proof -
  have top: "validate_top_level_objects list_names semantic_manifest =
     Inr [ValidationError
            (Some (SemanticModelContext (from_metadata (model_metadata second_model))
                     (SemanticModelReference ''orders'')))
            (''Can'' @ [CHR 0x27] @ ''t use name `orders` for a semantic model when it '' @
             ''was already used for a semantic model'')]"
    using assms
    by (simp add: validate_top_level_objects_def collect_semantic_models_issues
        orders_is_valid semantic_model_context_def object_duplicate_message_def)
  have elements: "validate_all_elements list_names [first_model, second_model] = Inr []"
    using assms
    by (simp add: validate_semantic_model_elements_issues element_info_tuples_def)
  show ?thesis
    using assms(1) top elements by (simp add: unique_validate_manifest_def)
qed

theorem duplicate_model_name_reported_once_witness:
  "''ORDERS'' \<notin> set [''DAY''] \<and>
   unique_validate_manifest [''DAY'']
     \<lparr>semantic_models =
        [\<lparr>model_name = ''orders'', primary_entity = None, measures = [], entities = [],
          dimensions = [], model_metadata = (1 :: nat)\<rparr>,
         \<lparr>model_name = ''orders'', primary_entity = None, measures = [], entities = [],
          dimensions = [], model_metadata = 2\<rparr>],
      metrics = []\<rparr> =
   Inr [ValidationError
          (Some (SemanticModelContext (from_metadata 2) (SemanticModelReference ''orders'')))
          (''Can'' @ [CHR 0x27] @ ''t use name `orders` for a semantic model when it '' @
           ''was already used for a semantic model'')]"
proof -
  have h: "''ORDERS'' \<notin> set [''DAY'']" by simp
  show ?thesis
    using h duplicate_model_name_reported_once
      [of "\<lparr>semantic_models =
              [\<lparr>model_name = ''orders'', primary_entity = None, measures = [], entities = [],
                dimensions = [], model_metadata = (1 :: nat)\<rparr>,
               \<lparr>model_name = ''orders'', primary_entity = None, measures = [], entities = [],
                dimensions = [], model_metadata = 2\<rparr>],
            metrics = []\<rparr>"
          "\<lparr>model_name = ''orders'', primary_entity = None, measures = [], entities = [],
            dimensions = [], model_metadata = (1 :: nat)\<rparr>"
          "\<lparr>model_name = ''orders'', primary_entity = None, measures = [], entities = [],
            dimensions = [], model_metadata = 2\<rparr>"
          "[''DAY'']"]
    by simp
qed

section \<open>Properties of PrimaryEntityDimensionPairs\<close>


lemma check_dimensions_register:
  "known_pairings primary = Some registered \<Longrightarrow>
   check_dimensions semantic_model primary safe dims known_pairings =
     Inr (fst (register_dimensions semantic_model primary safe dims registered),
          known_pairings(primary \<mapsto>
            snd (register_dimensions semantic_model primary safe dims registered)))"
proof (induction dims arbitrary: known_pairings registered)
  case Nil
  then show ?case by (simp add: map_upd_triv)
next
  case (Cons d dims)
  show ?case
  proof (cases "safe \<or> registered (dimension_name d) = None")
    case True
    let ?r = "registered(dimension_name d \<mapsto> model_name semantic_model)"
    have step: "check_dimensions semantic_model primary safe (d # dims) known_pairings =
        check_dimensions semantic_model primary safe dims (known_pairings(primary \<mapsto> ?r))"
      using True Cons.prems by simp
    have reg: "register_dimensions semantic_model primary safe (d # dims) registered =
        register_dimensions semantic_model primary safe dims ?r"
      using True by auto
    have "(known_pairings(primary \<mapsto> ?r)) primary = Some ?r" by simp
    from Cons.IH [of "known_pairings(primary \<mapsto> ?r)" ?r, OF this]
    show ?thesis unfolding step reg by (simp only: fun_upd_upd)
  next
    case False
    then obtain owner where o: "registered (dimension_name d) = Some owner" and s: "\<not> safe"
      by auto
    have reg: "register_dimensions semantic_model primary safe (d # dims) registered =
        (ValidationError (Some (pairing_context semantic_model d))
           (pairing_message (model_name semantic_model) primary (dimension_name d) owner)
         # fst (register_dimensions semantic_model primary safe dims registered),
         snd (register_dimensions semantic_model primary safe dims registered))"
      using o s by (simp add: split_beta)
    show ?thesis
      unfolding reg using Cons.IH [of known_pairings registered, OF Cons.prems] o s Cons.prems
      by simp
  qed
qed

lemma check_semantic_model_register:
  "resolve_primary_entity semantic_model = Some primary \<Longrightarrow>
   check_semantic_model semantic_model known_pairings =
     (let registered = (case known_pairings primary of None \<Rightarrow> Map.empty | Some r \<Rightarrow> r);
          result = register_dimensions semantic_model primary (known_pairings primary = None)
                     (dimensions semantic_model) registered
      in Inr (fst result, known_pairings(primary \<mapsto> snd result)))"
  by (cases "known_pairings primary")
    (simp_all add: check_semantic_model_def check_dimensions_register Let_def)

lemma check_semantic_model_lookup_register:
  "resolve_primary_entity semantic_model = Some primary \<Longrightarrow>
   check_semantic_model_lookup semantic_model known_pairings =
     (let registered = (case known_pairings primary of None \<Rightarrow> Map.empty | Some r \<Rightarrow> r);
          result = register_dimensions semantic_model primary False
                     (dimensions semantic_model) registered
      in Inr (fst result, known_pairings(primary \<mapsto> snd result)))"
  by (cases "known_pairings primary")
    (simp_all add: check_semantic_model_lookup_def check_dimensions_register Let_def)

lemma register_safe_is_lookup:
  "distinct (map dimension_name dims) \<Longrightarrow>
   \<forall>d \<in> set dims. registered (dimension_name d) = None \<Longrightarrow>
   register_dimensions semantic_model primary True dims registered =
   register_dimensions semantic_model primary False dims registered"
proof (induction dims arbitrary: registered)
  case Nil
  then show ?case by simp
next
  case (Cons d dims)
  let ?r = "registered(dimension_name d \<mapsto> model_name semantic_model)"
  have "\<forall>d' \<in> set dims. ?r (dimension_name d') = None"
    using Cons.prems by (fastforce simp add: image_iff)
  moreover have "distinct (map dimension_name dims)" using Cons.prems by simp
  ultimately have "register_dimensions semantic_model primary True dims ?r =
      register_dimensions semantic_model primary False dims ?r"
    by (rule Cons.IH [rotated])
  then show ?case using Cons.prems by simp
qed

lemma check_semantic_model_safe_is_lookup:
  assumes "distinct_dimensions semantic_model"
  shows "check_semantic_model semantic_model known_pairings =
         check_semantic_model_lookup semantic_model known_pairings"
proof (cases "resolve_primary_entity semantic_model")
  case None
  then show ?thesis by (simp add: check_semantic_model_def check_semantic_model_lookup_def)
next
  case (Some primary)
  show ?thesis
  proof (cases "known_pairings primary")
    case None
    have "register_dimensions semantic_model primary True (dimensions semantic_model) Map.empty =
        register_dimensions semantic_model primary False (dimensions semantic_model) Map.empty"
      using assms by (intro register_safe_is_lookup) (simp_all add: distinct_dimensions_def)
    then show ?thesis
      using Some None
      by (simp add: check_semantic_model_register check_semantic_model_lookup_register)
  next
    case (Some r)
    then show ?thesis
      using \<open>resolve_primary_entity semantic_model = Some primary\<close>
      by (simp add: check_semantic_model_register check_semantic_model_lookup_register)
  qed
qed

lemma check_semantic_models_safe_is_lookup:
  "\<forall>semantic_model \<in> set models. distinct_dimensions semantic_model \<Longrightarrow>
   check_semantic_models models known_pairings =
   check_semantic_models_lookup models known_pairings"
proof (induction models arbitrary: known_pairings)
  case Nil
  then show ?case by simp
next
  case (Cons m models)
  then have "check_semantic_model m known_pairings = check_semantic_model_lookup m known_pairings"
    by (simp add: check_semantic_model_safe_is_lookup)
  then show ?case using Cons by (simp split: sum.splits)
qed

lemma check_semantic_model_total:
  "\<exists>issues known_pairings'.
     check_semantic_model semantic_model known_pairings = Inr (issues, known_pairings')"
proof (cases "resolve_primary_entity semantic_model")
  case None
  then show ?thesis by (simp add: check_semantic_model_def)
next
  case (Some primary)
  then show ?thesis by (simp add: check_semantic_model_register Let_def)
qed

lemma check_semantic_models_total:
  "\<exists>issues known_pairings'.
     check_semantic_models models known_pairings = Inr (issues, known_pairings')"
proof (induction models arbitrary: known_pairings)
  case Nil
  then show ?case by simp
next
  case (Cons m models)
  obtain issues kp where "check_semantic_model m known_pairings = Inr (issues, kp)"
    using check_semantic_model_total by blast
  moreover obtain later kp' where "check_semantic_models models kp = Inr (later, kp')"
    using Cons.IH by blast
  ultimately show ?case by simp
qed


lemma first_primary_entity_filter:
  "first_primary_entity es =
     (case filter (\<lambda>entity. entity_type entity = PRIMARY) es of
        [] \<Rightarrow> None
      | entity # _ \<Rightarrow> Some (entity_name entity))"
  by (induction es) simp_all

text \<open>
  Claim C8. The primary entity of a semantic model is its declared \<^verbatim>\<open>primary_entity\<close>
  when there is one, and otherwise the name of the first entity, in declaration order,
  of type \<^verbatim>\<open>PRIMARY\<close>. With neither, the model is skipped: no issue, the registry as it
  was, and the loop goes on with the next model. With one, the dimensions are checked
  under that primary entity.
\<close>

theorem primary_entity_resolution:
  "resolve_primary_entity semantic_model = declared_or_first_primary semantic_model \<and>
   (resolve_primary_entity semantic_model = None \<longrightarrow>
      check_semantic_model semantic_model known_pairings = Inr ([], known_pairings) \<and>
      check_semantic_models (semantic_model # rest) known_pairings =
        check_semantic_models rest known_pairings) \<and>
   (resolve_primary_entity semantic_model = Some primary \<longrightarrow>
      check_semantic_model semantic_model known_pairings =
        check_dimensions semantic_model primary (known_pairings primary = None)
          (dimensions semantic_model)
          (if known_pairings primary = None then known_pairings(primary \<mapsto> Map.empty)
           else known_pairings))"
proof (intro conjI impI)
  show "resolve_primary_entity semantic_model = declared_or_first_primary semantic_model"
    by (simp add: resolve_primary_entity_def declared_or_first_primary_def
        first_primary_entity_filter split: option.splits)
next
  assume none: "resolve_primary_entity semantic_model = None"
  then show skip: "check_semantic_model semantic_model known_pairings = Inr ([], known_pairings)"
    by (simp add: check_semantic_model_def)
  show "check_semantic_models (semantic_model # rest) known_pairings =
      check_semantic_models rest known_pairings"
    by (simp add: skip split: sum.splits prod.splits)
next
  assume "resolve_primary_entity semantic_model = Some primary"
  then show "check_semantic_model semantic_model known_pairings =
      check_dimensions semantic_model primary (known_pairings primary = None)
        (dimensions semantic_model)
        (if known_pairings primary = None then known_pairings(primary \<mapsto> Map.empty)
         else known_pairings)"
    by (cases "known_pairings primary") (simp_all add: check_semantic_model_def)
qed

theorem primary_entity_resolution_witness:
  "resolve_primary_entity
     \<lparr>model_name = ''visits'', primary_entity = None, measures = [],
      entities = [\<lparr>entity_name = ''guest'', entity_type = FOREIGN\<rparr>],
      dimensions = [\<lparr>dimension_name = ''created_at''\<rparr>], model_metadata = ()\<rparr> = None \<and>
   check_semantic_model
     \<lparr>model_name = ''visits'', primary_entity = None, measures = [],
      entities = [\<lparr>entity_name = ''guest'', entity_type = FOREIGN\<rparr>],
      dimensions = [\<lparr>dimension_name = ''created_at''\<rparr>], model_metadata = ()\<rparr>
     Map.empty = Inr ([], Map.empty) \<and>
   resolve_primary_entity
     \<lparr>model_name = ''hosts'', primary_entity = None, measures = [],
      entities = [\<lparr>entity_name = ''guest'', entity_type = FOREIGN\<rparr>,
                  \<lparr>entity_name = ''host'', entity_type = PRIMARY\<rparr>,
                  \<lparr>entity_name = ''home'', entity_type = PRIMARY\<rparr>],
      dimensions = [], model_metadata = ()\<rparr> = Some ''host'' \<and>
   check_semantic_model
     \<lparr>model_name = ''hosts'', primary_entity = None, measures = [],
      entities = [\<lparr>entity_name = ''guest'', entity_type = FOREIGN\<rparr>,
                  \<lparr>entity_name = ''host'', entity_type = PRIMARY\<rparr>,
                  \<lparr>entity_name = ''home'', entity_type = PRIMARY\<rparr>],
      dimensions = [], model_metadata = ()\<rparr>
     Map.empty = Inr ([], [''host'' \<mapsto> Map.empty])"
proof -
  let ?visits = "\<lparr>model_name = ''visits'', primary_entity = None, measures = [],
      entities = [\<lparr>entity_name = ''guest'', entity_type = FOREIGN\<rparr>],
      dimensions = [\<lparr>dimension_name = ''created_at''\<rparr>], model_metadata = ()\<rparr>"
  let ?hosts = "\<lparr>model_name = ''hosts'', primary_entity = None, measures = [],
      entities = [\<lparr>entity_name = ''guest'', entity_type = FOREIGN\<rparr>,
                  \<lparr>entity_name = ''host'', entity_type = PRIMARY\<rparr>,
                  \<lparr>entity_name = ''home'', entity_type = PRIMARY\<rparr>],
      dimensions = [], model_metadata = ()\<rparr>"
  have v: "resolve_primary_entity ?visits = None"
    and h: "resolve_primary_entity ?hosts = Some ''host''"
    by (simp_all add: resolve_primary_entity_def)
  show ?thesis
    using v h primary_entity_resolution [of ?visits Map.empty "[]" "''host''"]
      primary_entity_resolution [of ?hosts Map.empty "[]" "''host''"]
    by simp
qed

text \<open>
  Claim C1, as amended. For every manifest in which no semantic model declares two
  dimensions of the same name, the rule with the \<open>safe\<close> short-circuit and the rule with
  the unconditional lookup return the same list of issues.
\<close>

theorem safe_flag_is_lookup_without_repeated_dimensions:
  assumes "\<forall>semantic_model \<in> set (semantic_models semantic_manifest).
             distinct_dimensions semantic_model"
  shows "\<exists>issues. pairs_validate_manifest semantic_manifest = Inr issues \<and>
                  pairs_validate_manifest_lookup semantic_manifest = Inr issues"
proof -
  obtain issues kp where r:
    "check_semantic_models (semantic_models semantic_manifest) Map.empty = Inr (issues, kp)"
    using check_semantic_models_total by blast
  then have "check_semantic_models_lookup (semantic_models semantic_manifest) Map.empty =
      Inr (issues, kp)"
    using check_semantic_models_safe_is_lookup [OF assms] by simp
  with r show ?thesis
    by (simp add: pairs_validate_manifest_def pairs_validate_manifest_lookup_def)
qed

theorem safe_flag_is_lookup_without_repeated_dimensions_witness:
  "distinct_dimensions
     \<lparr>model_name = ''listings'', primary_entity = Some ''host'', measures = [], entities = [],
      dimensions = [\<lparr>dimension_name = ''created_at''\<rparr>], model_metadata = ()\<rparr> \<and>
   distinct_dimensions
     \<lparr>model_name = ''bookings'', primary_entity = Some ''host'', measures = [], entities = [],
      dimensions = [\<lparr>dimension_name = ''created_at''\<rparr>], model_metadata = ()\<rparr> \<and>
   (\<exists>issues.
      pairs_validate_manifest
        \<lparr>semantic_models =
           [\<lparr>model_name = ''listings'', primary_entity = Some ''host'', measures = [],
             entities = [], dimensions = [\<lparr>dimension_name = ''created_at''\<rparr>],
             model_metadata = ()\<rparr>,
            \<lparr>model_name = ''bookings'', primary_entity = Some ''host'', measures = [],
             entities = [], dimensions = [\<lparr>dimension_name = ''created_at''\<rparr>],
             model_metadata = ()\<rparr>],
         metrics = []\<rparr> = Inr issues \<and>
      pairs_validate_manifest_lookup
        \<lparr>semantic_models =
           [\<lparr>model_name = ''listings'', primary_entity = Some ''host'', measures = [],
             entities = [], dimensions = [\<lparr>dimension_name = ''created_at''\<rparr>],
             model_metadata = ()\<rparr>,
            \<lparr>model_name = ''bookings'', primary_entity = Some ''host'', measures = [],
             entities = [], dimensions = [\<lparr>dimension_name = ''created_at''\<rparr>],
             model_metadata = ()\<rparr>],
         metrics = []\<rparr> = Inr issues)"
proof -
  let ?a = "\<lparr>model_name = ''listings'', primary_entity = Some ''host'', measures = [],
      entities = [], dimensions = [\<lparr>dimension_name = ''created_at''\<rparr>],
      model_metadata = ()\<rparr>"
  let ?b = "\<lparr>model_name = ''bookings'', primary_entity = Some ''host'', measures = [],
      entities = [], dimensions = [\<lparr>dimension_name = ''created_at''\<rparr>],
      model_metadata = ()\<rparr>"
  let ?m = "\<lparr>semantic_models = [?a, ?b], metrics = ([] :: unit Metric list)\<rparr>"
  have d: "distinct_dimensions ?a" "distinct_dimensions ?b"
    by (simp_all add: distinct_dimensions_def)
  then have h: "\<forall>semantic_model \<in> set (semantic_models ?m). distinct_dimensions semantic_model"
    by simp
  show ?thesis
    using d safe_flag_is_lookup_without_repeated_dimensions [OF h] by blast
qed

text \<open>
  Without that condition the two rules differ: for a single semantic model of primary
  entity \<^verbatim>\<open>host\<close> that declares the dimension \<^verbatim>\<open>created_at\<close> twice, the rule with the
  \<open>safe\<close> short-circuit returns no issue, and the rule with the unconditional lookup
  reports the second occurrence against the model itself.
\<close>

theorem safe_flag_changes_the_issues_counterexample:
  "pairs_validate_manifest
     \<lparr>semantic_models =
        [\<lparr>model_name = ''listings'', primary_entity = Some ''host'', measures = [],
          entities = [],
          dimensions = [\<lparr>dimension_name = ''created_at''\<rparr>,
                        \<lparr>dimension_name = ''created_at''\<rparr>],
          model_metadata = ()\<rparr>],
      metrics = []\<rparr> = Inr [] \<and>
   pairs_validate_manifest_lookup
     \<lparr>semantic_models =
        [\<lparr>model_name = ''listings'', primary_entity = Some ''host'', measures = [],
          entities = [],
          dimensions = [\<lparr>dimension_name = ''created_at''\<rparr>,
                        \<lparr>dimension_name = ''created_at''\<rparr>],
          model_metadata = ()\<rparr>],
      metrics = []\<rparr> =
   Inr [ValidationError
          (Some (SemanticModelElementContext (from_metadata ())
                   (SemanticModelElementReference ''listings'' ''created_at'') DIMENSION))
          (pairing_message ''listings'' ''host'' ''created_at'' ''listings'')]"
  by (simp add: pairs_validate_manifest_def pairs_validate_manifest_lookup_def
      check_semantic_model_def check_semantic_model_lookup_def resolve_primary_entity_def
      pairing_context_def)



lemma register_safe_no_issues:
  "fst (register_dimensions semantic_model primary True dims registered) = []"
  by (induction dims arbitrary: registered) simp_all

lemma register_dom:
  "dom (snd (register_dimensions semantic_model primary safe dims registered)) =
     dom registered \<union> dimension_name ` set dims"
proof (induction dims arbitrary: registered)
  case Nil
  then show ?case by simp
next
  case (Cons d dims)
  show ?case
  proof (cases "if safe then None else registered (dimension_name d)")
    case None
    then show ?thesis using Cons.IH by auto
  next
    case (Some owner)
    then have "dimension_name d \<in> dom registered" by (auto split: if_splits)
    then show ?thesis using Some Cons.IH by (auto simp add: split_beta)
  qed
qed

lemma register_lookup_reports:
  "\<exists>d \<in> set dims. registered (dimension_name d) \<noteq> None \<Longrightarrow>
   fst (register_dimensions semantic_model primary False dims registered) \<noteq> []"
proof (induction dims arbitrary: registered)
  case Nil
  then show ?case by simp
next
  case (Cons d dims)
  show ?case
  proof (cases "registered (dimension_name d)")
    case None
    let ?r = "registered(dimension_name d \<mapsto> model_name semantic_model)"
    from Cons.prems None have "\<exists>d' \<in> set dims. ?r (dimension_name d') \<noteq> None" by auto
    then have "fst (register_dimensions semantic_model primary False dims ?r) \<noteq> []"
      by (rule Cons.IH)
    then show ?thesis using None by simp
  next
    case (Some owner)
    then show ?thesis by (simp add: split_beta)
  qed
qed

lemma register_lookup_only_reports:
  "distinct (map dimension_name dims) \<Longrightarrow>
   fst (register_dimensions semantic_model primary False dims registered) \<noteq> [] \<Longrightarrow>
   \<exists>d \<in> set dims. registered (dimension_name d) \<noteq> None"
proof (induction dims arbitrary: registered)
  case Nil
  then show ?case by simp
next
  case (Cons d dims)
  show ?case
  proof (cases "registered (dimension_name d)")
    case None
    let ?r = "registered(dimension_name d \<mapsto> model_name semantic_model)"
    have "fst (register_dimensions semantic_model primary False dims ?r) \<noteq> []"
      using Cons.prems(2) None by simp
    moreover have "distinct (map dimension_name dims)" using Cons.prems(1) by simp
    ultimately obtain d' where d': "d' \<in> set dims" "?r (dimension_name d') \<noteq> None"
      using Cons.IH by blast
    have "dimension_name d' \<noteq> dimension_name d"
      using Cons.prems(1) d'(1) by (auto simp add: image_iff)
    then have "registered (dimension_name d') \<noteq> None" using d'(2) by simp
    then show ?thesis using d'(1) by auto
  next
    case (Some owner)
    then show ?thesis by simp
  qed
qed

lemma registered_pairs_update:
  "registered_pairs (known_pairings(primary \<mapsto> registered)) =
     {pair \<in> registered_pairs known_pairings. fst pair \<noteq> primary} \<union>
     {primary} \<times> dom registered"
  by (auto simp add: registered_pairs_def split: if_splits)

lemma registered_pairs_at:
  "{primary} \<times> dom (case known_pairings primary of None \<Rightarrow> Map.empty | Some r \<Rightarrow> r) =
     {pair \<in> registered_pairs known_pairings. fst pair = primary}"
  by (auto simp add: registered_pairs_def split: option.splits)

lemma pairs_of_resolved:
  "resolve_primary_entity semantic_model = Some primary \<Longrightarrow>
   set (pairs_of semantic_model) = {primary} \<times> dimension_name ` set (dimensions semantic_model)"
  by (auto simp add: pairs_of_def)

lemma check_semantic_model_pairs:
  assumes "check_semantic_model semantic_model known_pairings = Inr (issues, known_pairings')"
  shows "registered_pairs known_pairings' =
           registered_pairs known_pairings \<union> set (pairs_of semantic_model)"
    and "set (pairs_of semantic_model) \<inter> registered_pairs known_pairings \<noteq> {} \<Longrightarrow> issues \<noteq> []"
    and "distinct_dimensions semantic_model \<Longrightarrow> issues \<noteq> [] \<Longrightarrow>
           set (pairs_of semantic_model) \<inter> registered_pairs known_pairings \<noteq> {}"
proof -
  show "registered_pairs known_pairings' =
           registered_pairs known_pairings \<union> set (pairs_of semantic_model)"
  proof (cases "resolve_primary_entity semantic_model")
    case None
    then show ?thesis using assms by (simp add: check_semantic_model_def pairs_of_def)
  next
    case (Some primary)
    let ?reg = "case known_pairings primary of None \<Rightarrow> Map.empty | Some r \<Rightarrow> r"
    let ?res = "register_dimensions semantic_model primary (known_pairings primary = None)
                  (dimensions semantic_model) ?reg"
    have kp': "known_pairings' = known_pairings(primary \<mapsto> snd ?res)"
      using assms Some by (simp add: check_semantic_model_register Let_def)
    have "registered_pairs known_pairings' =
        {pair \<in> registered_pairs known_pairings. fst pair \<noteq> primary} \<union>
        {primary} \<times> (dom ?reg \<union> dimension_name ` set (dimensions semantic_model))"
      unfolding kp' registered_pairs_update register_dom ..
    also have "\<dots> = {pair \<in> registered_pairs known_pairings. fst pair \<noteq> primary} \<union>
        {pair \<in> registered_pairs known_pairings. fst pair = primary} \<union>
        set (pairs_of semantic_model)"
      using registered_pairs_at [of primary known_pairings] pairs_of_resolved [OF Some]
      by auto
    also have "\<dots> = registered_pairs known_pairings \<union> set (pairs_of semantic_model)"
      by auto
    finally show ?thesis .
  qed
next
  assume shared: "set (pairs_of semantic_model) \<inter> registered_pairs known_pairings \<noteq> {}"
  then obtain primary where res: "resolve_primary_entity semantic_model = Some primary"
    by (cases "resolve_primary_entity semantic_model") (auto simp add: pairs_of_def)
  from shared obtain d registered owner where
    d: "d \<in> set (dimensions semantic_model)" and
    kp: "known_pairings primary = Some registered" and
    o: "registered (dimension_name d) = Some owner"
    using pairs_of_resolved [OF res] by (auto simp add: registered_pairs_def)
  have "issues = fst (register_dimensions semantic_model primary False
      (dimensions semantic_model) registered)"
    using assms res kp by (simp add: check_semantic_model_register Let_def)
  moreover have "\<exists>d \<in> set (dimensions semantic_model). registered (dimension_name d) \<noteq> None"
    using d o by auto
  ultimately show "issues \<noteq> []" by (simp add: register_lookup_reports)
next
  assume dist: "distinct_dimensions semantic_model" and ne: "issues \<noteq> []"
  from ne assms obtain primary where res: "resolve_primary_entity semantic_model = Some primary"
    by (cases "resolve_primary_entity semantic_model") (auto simp add: check_semantic_model_def)
  from ne assms res obtain registered where kp: "known_pairings primary = Some registered"
    by (cases "known_pairings primary")
      (auto simp add: check_semantic_model_register Let_def register_safe_no_issues)
  have "issues = fst (register_dimensions semantic_model primary False
      (dimensions semantic_model) registered)"
    using assms res kp by (simp add: check_semantic_model_register Let_def)
  with ne dist obtain d where d: "d \<in> set (dimensions semantic_model)"
      "registered (dimension_name d) \<noteq> None"
    using register_lookup_only_reports [of "dimensions semantic_model" semantic_model primary
        registered]
    by (auto simp add: distinct_dimensions_def)
  then have "(primary, dimension_name d) \<in> registered_pairs known_pairings"
    using kp by (auto simp add: registered_pairs_def)
  moreover have "(primary, dimension_name d) \<in> set (pairs_of semantic_model)"
    using d(1) pairs_of_resolved [OF res] by auto
  ultimately show "set (pairs_of semantic_model) \<inter> registered_pairs known_pairings \<noteq> {}"
    by blast
qed

lemma shared_pairing_Cons:
  "shared_pairing (m # models) \<longleftrightarrow>
     (\<exists>other \<in> set models. set (pairs_of m) \<inter> set (pairs_of other) \<noteq> {}) \<or>
     shared_pairing models"
  by (auto simp add: list_ex_iff)

lemma check_semantic_models_pairs:
  assumes "check_semantic_models models known_pairings = Inr (issues, known_pairings')"
  shows "((\<exists>m \<in> set models. set (pairs_of m) \<inter> registered_pairs known_pairings \<noteq> {}) \<or>
          shared_pairing models \<longrightarrow> issues \<noteq> []) \<and>
         ((\<forall>m \<in> set models. distinct_dimensions m) \<longrightarrow> issues \<noteq> [] \<longrightarrow>
          (\<exists>m \<in> set models. set (pairs_of m) \<inter> registered_pairs known_pairings \<noteq> {}) \<or>
          shared_pairing models)"
  using assms
proof (induction models arbitrary: known_pairings issues known_pairings')
  case Nil
  then show ?case by simp
next
  case (Cons m models)
  obtain first kp where f: "check_semantic_model m known_pairings = Inr (first, kp)"
    using check_semantic_model_total by blast
  obtain later kp' where l: "check_semantic_models models kp = Inr (later, kp')"
    using check_semantic_models_total by blast
  have issues: "issues = first @ later" using Cons.prems f l by simp
  note ih = Cons.IH [OF l]
  note reg = check_semantic_model_pairs(1) [OF f]
  note rep = check_semantic_model_pairs(2) [OF f]
  note only = check_semantic_model_pairs(3) [OF f]
  have later_iff: "(\<exists>x \<in> set models. set (pairs_of x) \<inter> registered_pairs kp \<noteq> {}) \<longleftrightarrow>
      (\<exists>x \<in> set models. set (pairs_of x) \<inter> registered_pairs known_pairings \<noteq> {}) \<or>
      (\<exists>x \<in> set models. set (pairs_of m) \<inter> set (pairs_of x) \<noteq> {})"
    unfolding reg by blast
  show ?case
  proof (intro conjI impI)
    assume "(\<exists>x \<in> set (m # models).
        set (pairs_of x) \<inter> registered_pairs known_pairings \<noteq> {}) \<or>
      shared_pairing (m # models)"
    then consider "set (pairs_of m) \<inter> registered_pairs known_pairings \<noteq> {}"
      | "(\<exists>x \<in> set models. set (pairs_of x) \<inter> registered_pairs kp \<noteq> {}) \<or>
         shared_pairing models"
      unfolding shared_pairing_Cons later_iff by auto
    then show "issues \<noteq> []"
    proof cases
      case 1
      then show ?thesis using rep issues by simp
    next
      case 2
      then show ?thesis using ih issues by simp
    qed
  next
    assume dist: "\<forall>x \<in> set (m # models). distinct_dimensions x" and ne: "issues \<noteq> []"
    from ne issues consider "first \<noteq> []" | "later \<noteq> []" by auto
    then show "(\<exists>x \<in> set (m # models).
        set (pairs_of x) \<inter> registered_pairs known_pairings \<noteq> {}) \<or>
      shared_pairing (m # models)"
    proof cases
      case 1
      then have "set (pairs_of m) \<inter> registered_pairs known_pairings \<noteq> {}"
        using only dist by simp
      then show ?thesis by simp
    next
      case 2
      then have "(\<exists>x \<in> set models. set (pairs_of x) \<inter> registered_pairs kp \<noteq> {}) \<or>
         shared_pairing models"
        using ih dist by simp
      then show ?thesis unfolding shared_pairing_Cons later_iff by auto
    qed
  qed
qed

lemma registered_pairs_empty: "registered_pairs Map.empty = {}"
  by (simp add: registered_pairs_def)


text \<open>
  What the rule reports. Its list of issues is not empty whenever the same (primary
  entity, dimension name) pair is used by more than one semantic model; in a manifest
  where no semantic model declares two dimensions of the same name, it is not empty
  only then. Two models that both resolve to the primary entity \<^verbatim>\<open>host\<close> and both declare
  the one dimension \<^verbatim>\<open>created_at\<close> get exactly one error, on the second model, whose
  message names both models. Two models whose primary entities differ get no error,
  whatever dimensions they declare.
\<close>

theorem duplicate_pairings_reported:
  "(\<exists>issues. pairs_validate_manifest semantic_manifest = Inr issues \<and>
      (shared_pairing (semantic_models semantic_manifest) \<longrightarrow> issues \<noteq> []) \<and>
      ((\<forall>semantic_model \<in> set (semantic_models semantic_manifest).
          distinct_dimensions semantic_model) \<longrightarrow>
       issues \<noteq> [] \<longrightarrow> shared_pairing (semantic_models semantic_manifest))) \<and>
   (semantic_models semantic_manifest = [a, b] \<and>
    resolve_primary_entity a = Some ''host'' \<and> resolve_primary_entity b = Some ''host'' \<and>
    dimensions a = [da] \<and> dimensions b = [db] \<and>
    dimension_name da = ''created_at'' \<and> dimension_name db = ''created_at'' \<longrightarrow>
      pairs_validate_manifest semantic_manifest =
        Inr [ValidationError
               (Some (SemanticModelElementContext (from_metadata (model_metadata b))
                        (SemanticModelElementReference (model_name b) ''created_at'')
                        DIMENSION))
               (''Duplicate dimension + primary entity pairing detected, dimension + '' @
                ''primary entity pairings must be unique. Semantic model `'' @ model_name b @
                ''` has a primary entity of `host` and dimension `created_at`, but this '' @
                ''pairing is already in use on semantic model `'' @ model_name a @ ''`.'')]) \<and>
   (semantic_models semantic_manifest = [a, b] \<and>
    resolve_primary_entity a = Some p \<and> resolve_primary_entity b = Some q \<and> p \<noteq> q \<longrightarrow>
      pairs_validate_manifest semantic_manifest = Inr [])"
proof (intro conjI impI)
  obtain issues kp where r:
    "check_semantic_models (semantic_models semantic_manifest) Map.empty = Inr (issues, kp)"
    using check_semantic_models_total by blast
  have "pairs_validate_manifest semantic_manifest = Inr issues"
    using r by (simp add: pairs_validate_manifest_def)
  moreover have "shared_pairing (semantic_models semantic_manifest) \<longrightarrow> issues \<noteq> []"
    using check_semantic_models_pairs [OF r] by blast
  moreover have "(\<forall>semantic_model \<in> set (semantic_models semantic_manifest).
          distinct_dimensions semantic_model) \<longrightarrow>
       issues \<noteq> [] \<longrightarrow> shared_pairing (semantic_models semantic_manifest)"
    using check_semantic_models_pairs [OF r] by (simp add: registered_pairs_empty)
  ultimately show "\<exists>issues. pairs_validate_manifest semantic_manifest = Inr issues \<and>
      (shared_pairing (semantic_models semantic_manifest) \<longrightarrow> issues \<noteq> []) \<and>
      ((\<forall>semantic_model \<in> set (semantic_models semantic_manifest).
          distinct_dimensions semantic_model) \<longrightarrow>
       issues \<noteq> [] \<longrightarrow> shared_pairing (semantic_models semantic_manifest))"
    by blast
next
  assume "semantic_models semantic_manifest = [a, b] \<and>
    resolve_primary_entity a = Some ''host'' \<and> resolve_primary_entity b = Some ''host'' \<and>
    dimensions a = [da] \<and> dimensions b = [db] \<and>
    dimension_name da = ''created_at'' \<and> dimension_name db = ''created_at''"
  then show "pairs_validate_manifest semantic_manifest =
        Inr [ValidationError
               (Some (SemanticModelElementContext (from_metadata (model_metadata b))
                        (SemanticModelElementReference (model_name b) ''created_at'')
                        DIMENSION))
               (''Duplicate dimension + primary entity pairing detected, dimension + '' @
                ''primary entity pairings must be unique. Semantic model `'' @ model_name b @
                ''` has a primary entity of `host` and dimension `created_at`, but this '' @
                ''pairing is already in use on semantic model `'' @ model_name a @ ''`.'')]"
    by (auto simp add: pairs_validate_manifest_def check_semantic_model_def
        pairing_context_def pairing_message_def)
next
  assume h: "semantic_models semantic_manifest = [a, b] \<and>
    resolve_primary_entity a = Some p \<and> resolve_primary_entity b = Some q \<and> p \<noteq> q"
  then have "check_semantic_models [a, b] Map.empty =
      Inr ([], [p \<mapsto> snd (register_dimensions a p True (dimensions a) Map.empty),
                q \<mapsto> snd (register_dimensions b q True (dimensions b) Map.empty)])"
    by (auto simp add: check_semantic_model_register register_safe_no_issues Let_def)
  with h show "pairs_validate_manifest semantic_manifest = Inr []"
    by (simp add: pairs_validate_manifest_def)
qed

theorem duplicate_pairings_reported_witness:
  "shared_pairing
     [\<lparr>model_name = ''listings'', primary_entity = Some ''host'', measures = [], entities = [],
       dimensions = [\<lparr>dimension_name = ''created_at''\<rparr>], model_metadata = (1 :: nat)\<rparr>,
      \<lparr>model_name = ''bookings'', primary_entity = Some ''host'', measures = [], entities = [],
       dimensions = [\<lparr>dimension_name = ''created_at''\<rparr>], model_metadata = 2\<rparr>] \<and>
   pairs_validate_manifest
     \<lparr>semantic_models =
        [\<lparr>model_name = ''listings'', primary_entity = Some ''host'', measures = [],
          entities = [], dimensions = [\<lparr>dimension_name = ''created_at''\<rparr>],
          model_metadata = (1 :: nat)\<rparr>,
         \<lparr>model_name = ''bookings'', primary_entity = Some ''host'', measures = [],
          entities = [], dimensions = [\<lparr>dimension_name = ''created_at''\<rparr>],
          model_metadata = 2\<rparr>],
      metrics = []\<rparr> =
     Inr [ValidationError
            (Some (SemanticModelElementContext (from_metadata 2)
                     (SemanticModelElementReference ''bookings'' ''created_at'') DIMENSION))
            (''Duplicate dimension + primary entity pairing detected, dimension + '' @
             ''primary entity pairings must be unique. Semantic model `bookings` has a '' @
             ''primary entity of `host` and dimension `created_at`, but this pairing is '' @
             ''already in use on semantic model `listings`.'')] \<and>
   \<not> shared_pairing
     [\<lparr>model_name = ''listings'', primary_entity = Some ''host'', measures = [], entities = [],
       dimensions = [\<lparr>dimension_name = ''created_at''\<rparr>], model_metadata = (1 :: nat)\<rparr>,
      \<lparr>model_name = ''guests'', primary_entity = None, measures = [],
       entities = [\<lparr>entity_name = ''guest'', entity_type = PRIMARY\<rparr>],
       dimensions = [\<lparr>dimension_name = ''created_at''\<rparr>], model_metadata = 2\<rparr>] \<and>
   pairs_validate_manifest
     \<lparr>semantic_models =
        [\<lparr>model_name = ''listings'', primary_entity = Some ''host'', measures = [],
          entities = [], dimensions = [\<lparr>dimension_name = ''created_at''\<rparr>],
          model_metadata = (1 :: nat)\<rparr>,
         \<lparr>model_name = ''guests'', primary_entity = None, measures = [],
          entities = [\<lparr>entity_name = ''guest'', entity_type = PRIMARY\<rparr>],
          dimensions = [\<lparr>dimension_name = ''created_at''\<rparr>], model_metadata = 2\<rparr>],
      metrics = []\<rparr> = Inr []"
proof -
  let ?a = "\<lparr>model_name = ''listings'', primary_entity = Some ''host'', measures = [],
      entities = [], dimensions = [\<lparr>dimension_name = ''created_at''\<rparr>],
      model_metadata = (1 :: nat)\<rparr>"
  let ?b = "\<lparr>model_name = ''bookings'', primary_entity = Some ''host'', measures = [],
      entities = [], dimensions = [\<lparr>dimension_name = ''created_at''\<rparr>],
      model_metadata = (2 :: nat)\<rparr>"
  let ?c = "\<lparr>model_name = ''guests'', primary_entity = None, measures = [],
      entities = [\<lparr>entity_name = ''guest'', entity_type = PRIMARY\<rparr>],
      dimensions = [\<lparr>dimension_name = ''created_at''\<rparr>], model_metadata = (2 :: nat)\<rparr>"
  let ?d = "\<lparr>dimension_name = ''created_at''\<rparr>"
  have s1: "shared_pairing [?a, ?b]" and s2: "\<not> shared_pairing [?a, ?c]"
    by (simp_all add: pairs_of_def resolve_primary_entity_def)
  have r: "resolve_primary_entity ?a = Some ''host''" "resolve_primary_entity ?b = Some ''host''"
    "resolve_primary_entity ?c = Some ''guest''"
    by (simp_all add: resolve_primary_entity_def)
  have d: "distinct_dimensions ?a" "distinct_dimensions ?b" "distinct_dimensions ?c"
    by (simp_all add: distinct_dimensions_def)
  show ?thesis
    using s1 s2 r d
      duplicate_pairings_reported
        [of "\<lparr>semantic_models = [?a, ?b], metrics = []\<rparr>" ?a ?b ?d ?d "''host''" "''guest''"]
      duplicate_pairings_reported
        [of "\<lparr>semantic_models = [?a, ?c], metrics = []\<rparr>" ?a ?c ?d ?d "''host''" "''guest''"]
    by simp
qed

text \<open>
  Claim C2. An error is reported exactly when a pair is used by more than one semantic
  model: the rule breaks it. After the model \<^verbatim>\<open>listings\<close> of primary entity \<^verbatim>\<open>host\<close>
  without dimensions, the model \<^verbatim>\<open>bookings\<close> of primary entity \<^verbatim>\<open>host\<close> that declares
  \<^verbatim>\<open>created_at\<close> twice gets one error, whose message gives \<^verbatim>\<open>bookings\<close> itself as the
  owner of the pairing, although no pair is used by two semantic models. The other path
  does not report it: the model \<^verbatim>\<open>bookings\<close> alone, the first of its primary entity,
  gets no error.
\<close>

theorem repeated_dimension_reported_against_itself:
  "pairs_validate_manifest
     \<lparr>semantic_models =
        [\<lparr>model_name = ''listings'', primary_entity = Some ''host'', measures = [],
          entities = [], dimensions = [], model_metadata = ()\<rparr>,
         \<lparr>model_name = ''bookings'', primary_entity = Some ''host'', measures = [],
          entities = [],
          dimensions = [\<lparr>dimension_name = ''created_at''\<rparr>,
                        \<lparr>dimension_name = ''created_at''\<rparr>],
          model_metadata = ()\<rparr>],
      metrics = []\<rparr> =
     Inr [ValidationError
            (Some (SemanticModelElementContext (from_metadata ())
                     (SemanticModelElementReference ''bookings'' ''created_at'') DIMENSION))
            (''Duplicate dimension + primary entity pairing detected, dimension + '' @
             ''primary entity pairings must be unique. Semantic model `bookings` has a '' @
             ''primary entity of `host` and dimension `created_at`, but this pairing is '' @
             ''already in use on semantic model `bookings`.'')] \<and>
   \<not> shared_pairing
     [\<lparr>model_name = ''listings'', primary_entity = Some ''host'', measures = [],
       entities = [], dimensions = [], model_metadata = ()\<rparr>,
      \<lparr>model_name = ''bookings'', primary_entity = Some ''host'', measures = [],
       entities = [],
       dimensions = [\<lparr>dimension_name = ''created_at''\<rparr>,
                     \<lparr>dimension_name = ''created_at''\<rparr>],
       model_metadata = ()\<rparr>] \<and>
   pairs_validate_manifest
     \<lparr>semantic_models =
        [\<lparr>model_name = ''bookings'', primary_entity = Some ''host'', measures = [],
          entities = [],
          dimensions = [\<lparr>dimension_name = ''created_at''\<rparr>,
                        \<lparr>dimension_name = ''created_at''\<rparr>],
          model_metadata = ()\<rparr>],
      metrics = []\<rparr> = Inr []"
  by (simp add: pairs_validate_manifest_def check_semantic_model_def
      resolve_primary_entity_def pairing_context_def pairing_message_def pairs_of_def)

section \<open>The rules on a state: the manifest is only read\<close>

lemma check_dimensions_st_run:
  "check_dimensions_st i primary safe js s =
     (case check_dimensions (model_at s i) primary safe
             (map ((!) (dimensions (model_at s i))) js) (pm_known_pairings s) of
        Inl e \<Rightarrow> Inl e
      | Inr (issues, known_pairings') \<Rightarrow>
          Inr (s\<lparr>pm_known_pairings := known_pairings', cs_issues := cs_issues s @ issues\<rparr>))"
proof (induction js arbitrary: s)
  case Nil
  then show ?case by simp
next
  case (Cons j js)
  let ?m = "model_at s i"
  let ?d = "dimensions ?m ! j"
  let ?ds = "map ((!) (dimensions ?m)) js"
  show ?case
  proof (cases "pm_known_pairings s primary")
    case None
    then show ?thesis by simp
  next
    case (Some registered)
    show ?thesis
    proof (cases "safe \<or> registered (dimension_name ?d) = None")
      case True
      let ?kp = "(pm_known_pairings s)(primary \<mapsto>
                    registered(dimension_name ?d \<mapsto> model_name ?m))"
      let ?s = "s\<lparr>pm_known_pairings := ?kp\<rparr>"
      have m: "model_at ?s i = ?m" by (simp add: model_at_def)
      have l: "check_dimensions_st i primary safe (j # js) s =
          check_dimensions_st i primary safe js ?s"
        using Some True by (simp add: Let_def)
      have r: "check_dimensions ?m primary safe (map ((!) (dimensions ?m)) (j # js))
            (pm_known_pairings s) =
          check_dimensions ?m primary safe ?ds ?kp"
        using Some True by simp
      show ?thesis
        unfolding l r Cons.IH [of ?s] m
        by (cases "check_dimensions ?m primary safe ?ds ?kp") auto
    next
      case False
      then obtain owner where o: "registered (dimension_name ?d) = Some owner" by auto
      let ?e = "ValidationError (Some (pairing_context ?m ?d))
                  (pairing_message (model_name ?m) primary (dimension_name ?d) owner)"
      let ?s = "s\<lparr>cs_issues := cs_issues s @ [?e]\<rparr>"
      have m: "model_at ?s i = ?m" by (simp add: model_at_def)
      have l: "check_dimensions_st i primary safe (j # js) s =
          check_dimensions_st i primary safe js ?s"
        using Some False o by (simp add: Let_def)
      have r: "check_dimensions ?m primary safe (map ((!) (dimensions ?m)) (j # js))
            (pm_known_pairings s) =
          (case check_dimensions ?m primary safe ?ds (pm_known_pairings s) of
             Inl e \<Rightarrow> Inl e
           | Inr (issues, known_pairings') \<Rightarrow> Inr (?e # issues, known_pairings'))"
        using Some False o by simp
      show ?thesis
        unfolding l r Cons.IH [of ?s] m
        by (cases "check_dimensions ?m primary safe ?ds (pm_known_pairings s)") auto
    qed
  qed
qed

lemma nth_upt_all: "map ((!) xs) [0..<length xs] = xs"
  by (rule map_nth)

lemma check_semantic_model_st_run:
  "check_semantic_model_st i s =
     (case check_semantic_model (model_at s i) (pm_known_pairings s) of
        Inl e \<Rightarrow> Inl e
      | Inr (issues, known_pairings') \<Rightarrow>
          Inr (s\<lparr>pm_known_pairings := known_pairings', cs_issues := issues\<rparr>))"
proof (cases "resolve_primary_entity (model_at s i)")
  case None
  then show ?thesis
    by (simp add: check_semantic_model_st_def check_semantic_model_def model_at_def)
next
  case (Some primary)
  let ?m = "model_at s i"
  show ?thesis
  proof (cases "pm_known_pairings s primary")
    case None
    let ?kp = "(pm_known_pairings s)(primary \<mapsto> Map.empty)"
    let ?s = "s\<lparr>cs_issues := [], pm_known_pairings := ?kp\<rparr>"
    have m: "model_at ?s i = ?m" by (simp add: model_at_def)
    have l: "check_semantic_model_st i s =
        check_dimensions_st i primary True [0..<length (dimensions ?m)] ?s"
      using Some None by (simp add: check_semantic_model_st_def model_at_def)
    have r: "check_semantic_model ?m (pm_known_pairings s) =
        check_dimensions ?m primary True (dimensions ?m) ?kp"
      using Some None by (simp add: check_semantic_model_def)
    show ?thesis
      unfolding l r check_dimensions_st_run m nth_upt_all
      by (cases "check_dimensions ?m primary True (dimensions ?m) ?kp") auto
  next
    case (Some registered)
    let ?s = "s\<lparr>cs_issues := []\<rparr>"
    have m: "model_at ?s i = ?m" by (simp add: model_at_def)
    have l: "check_semantic_model_st i s =
        check_dimensions_st i primary False [0..<length (dimensions ?m)] ?s"
      using Some \<open>resolve_primary_entity ?m = Some primary\<close>
      by (simp add: check_semantic_model_st_def model_at_def)
    have r: "check_semantic_model ?m (pm_known_pairings s) =
        check_dimensions ?m primary False (dimensions ?m) (pm_known_pairings s)"
      using Some \<open>resolve_primary_entity ?m = Some primary\<close>
      by (simp add: check_semantic_model_def)
    show ?thesis
      unfolding l r check_dimensions_st_run m nth_upt_all
      by (cases "check_dimensions ?m primary False (dimensions ?m) (pm_known_pairings s)") auto
  qed
qed

lemma check_semantic_models_st_run:
  "check_semantic_models (map ((!) (semantic_models (manifest s))) js) (pm_known_pairings s) =
     Inr (issues, known_pairings') \<Longrightarrow>
   \<exists>s'. check_semantic_models_st js s = Inr s' \<and> manifest s' = manifest s \<and>
        pm_known_pairings s' = known_pairings' \<and> pm_issues s' = pm_issues s @ issues"
proof (induction js arbitrary: s issues known_pairings')
  case Nil
  then show ?case by simp
next
  case (Cons j js)
  let ?models = "semantic_models (manifest s)"
  obtain first kp where f: "check_semantic_model (?models ! j) (pm_known_pairings s) =
      Inr (first, kp)"
    using check_semantic_model_total by blast
  obtain later kp' where l: "check_semantic_models (map ((!) ?models) js) kp = Inr (later, kp')"
    using check_semantic_models_total by blast
  have i: "issues = first @ later" and k: "known_pairings' = kp'"
    using Cons.prems f l by simp_all
  let ?s1 = "s\<lparr>pm_known_pairings := kp, cs_issues := first\<rparr>"
  let ?s2 = "?s1\<lparr>pm_issues := pm_issues ?s1 @ cs_issues ?s1\<rparr>"
  have step: "check_semantic_model_st j s = Inr ?s1"
    using f by (simp add: check_semantic_model_st_run model_at_def)
  have "check_semantic_models (map ((!) (semantic_models (manifest ?s2))) js)
      (pm_known_pairings ?s2) = Inr (later, kp')"
    using l by simp
  from Cons.IH [OF this] obtain s' where
    s': "check_semantic_models_st js ?s2 = Inr s'" "manifest s' = manifest ?s2"
      "pm_known_pairings s' = kp'" "pm_issues s' = pm_issues ?s2 @ later"
    by blast
  have "check_semantic_models_st (j # js) s = Inr s'"
    using step s'(1) by simp
  moreover have "manifest s' = manifest s" using s'(2) by simp
  moreover have "pm_issues s' = pm_issues s @ issues" using s'(4) i by simp
  ultimately show ?case using s'(3) k by blast
qed

lemma pairs_validate_manifest_st_run:
  "\<exists>s'. pairs_validate_manifest_st s = Inr s' \<and> manifest s' = manifest s \<and>
        pairs_validate_manifest (manifest s) = Inr (pm_issues s')"
proof -
  let ?s = "s\<lparr>pm_issues := [], pm_known_pairings := Map.empty\<rparr>"
  obtain issues kp where r:
    "check_semantic_models (semantic_models (manifest s)) Map.empty = Inr (issues, kp)"
    using check_semantic_models_total by blast
  then have "check_semantic_models
      (map ((!) (semantic_models (manifest ?s))) [0..<length (semantic_models (manifest ?s))])
      (pm_known_pairings ?s) = Inr (issues, kp)"
    by (simp add: nth_upt_all)
  from check_semantic_models_st_run [OF this] obtain s' where
    "check_semantic_models_st [0..<length (semantic_models (manifest ?s))] ?s = Inr s'"
    "manifest s' = manifest ?s" "pm_issues s' = pm_issues ?s @ issues"
    by blast
  then show ?thesis
    using r by (simp add: pairs_validate_manifest_st_def pairs_validate_manifest_def)
qed

lemma collect_measures_st_run:
  "collect_measures_st i js s =
     s\<lparr>el_tuples := el_tuples s @
         map (\<lambda>measure.
                (measure_reference measure, ''measure'',
                 SemanticModelElementContext (from_metadata (model_metadata (model_at s i)))
                   (SemanticModelElementReference (model_name (model_at s i))
                      (measure_name measure))
                   MEASURE))
           (map ((!) (measures (model_at s i))) js)\<rparr>"
  by (induction js arbitrary: s) (simp_all add: model_at_def)

lemma collect_entities_st_run:
  "collect_entities_st i js s =
     s\<lparr>el_tuples := el_tuples s @
         map (\<lambda>entity.
                (entity_reference entity, ''entity'',
                 SemanticModelElementContext (from_metadata (model_metadata (model_at s i)))
                   (SemanticModelElementReference (model_name (model_at s i))
                      (entity_name entity))
                   ENTITY))
           (map ((!) (entities (model_at s i))) js)\<rparr>"
  by (induction js arbitrary: s) (simp_all add: model_at_def)

lemma collect_dimensions_st_run:
  "collect_dimensions_st i js s =
     s\<lparr>el_tuples := el_tuples s @
         map (\<lambda>dimension.
                (dimension_reference dimension, ''dimension'',
                 SemanticModelElementContext (from_metadata (model_metadata (model_at s i)))
                   (SemanticModelElementReference (model_name (model_at s i))
                      (dimension_name dimension))
                   DIMENSION))
           (map ((!) (dimensions (model_at s i))) js)\<rparr>"
  by (induction js arbitrary: s) (simp_all add: model_at_def)

lemma element_duplicates_st_run:
  "\<exists>name_to_type.
     element_duplicates_st i tuples s =
       s\<lparr>el_name_to_type := name_to_type,
         el_issues := el_issues s @
           element_duplicates (model_name (model_at s i)) (el_name_to_type s) tuples\<rparr>"
proof (induction tuples arbitrary: s)
  case Nil
  show ?case by (rule exI [of _ "el_name_to_type s"]) simp
next
  case (Cons x tuples)
  obtain name ty ctx where x: "x = (name, ty, ctx)" by (rule prod_cases3)
  show ?case
  proof (cases "el_name_to_type s name")
    case None
    let ?s = "s\<lparr>el_name_to_type := (el_name_to_type s)(name \<mapsto> ty)\<rparr>"
    from Cons.IH [of ?s] obtain n where
      "element_duplicates_st i tuples ?s =
         ?s\<lparr>el_name_to_type := n,
            el_issues := el_issues ?s @
              element_duplicates (model_name (model_at ?s i)) (el_name_to_type ?s) tuples\<rparr>"
      by blast
    then have "element_duplicates_st i (x # tuples) s =
        s\<lparr>el_name_to_type := n,
          el_issues := el_issues s @
            element_duplicates (model_name (model_at s i)) (el_name_to_type s) (x # tuples)\<rparr>"
      using None x by (simp add: model_at_def)
    then show ?thesis by blast
  next
    case (Some first_type)
    let ?e = "ValidationError (Some ctx)
        (element_duplicate_message (model_name (model_at s i)) (element_name name) ty first_type)"
    let ?s = "s\<lparr>el_issues := el_issues s @ [?e]\<rparr>"
    from Cons.IH [of ?s] obtain n where
      "element_duplicates_st i tuples ?s =
         ?s\<lparr>el_name_to_type := n,
            el_issues := el_issues ?s @
              element_duplicates (model_name (model_at ?s i)) (el_name_to_type ?s) tuples\<rparr>"
      by blast
    then have "element_duplicates_st i (x # tuples) s =
        s\<lparr>el_name_to_type := n,
          el_issues := el_issues s @
            element_duplicates (model_name (model_at s i)) (el_name_to_type s) (x # tuples)\<rparr>"
      using Some x by (simp add: model_at_def)
    then show ?thesis by blast
  qed
qed

lemma element_name_checks_st_run:
  "element_name_checks_st list_names tuples s =
     Inr (s\<lparr>el_issues := el_issues s @
            concat (map (\<lambda>(name, type, context).
              valid_name_issues list_names (element_name name) (Some context)) tuples)\<rparr>)"
  by (induction tuples arbitrary: s) (auto simp add: check_valid_name_issues)

lemma validate_semantic_model_elements_st_run:
  "\<exists>s'. validate_semantic_model_elements_st list_names i s = Inr s' \<and>
        manifest s' = manifest s \<and> vm_issues s' = vm_issues s \<and>
        validate_semantic_model_elements list_names (model_at s i) = Inr (el_issues s')"
proof -
  let ?m = "model_at s i"
  let ?s0 = "s\<lparr>el_issues := [], el_tuples := []\<rparr>"
  let ?s1 = "if measures ?m \<noteq> []
             then collect_measures_st i [0..<length (measures ?m)] ?s0 else ?s0"
  let ?s2 = "if entities ?m \<noteq> []
             then collect_entities_st i [0..<length (entities ?m)] ?s1 else ?s1"
  let ?s3 = "if dimensions ?m \<noteq> []
             then collect_dimensions_st i [0..<length (dimensions ?m)] ?s2 else ?s2"
  let ?s4 = "?s3\<lparr>el_name_to_type := Map.empty\<rparr>"
  have m0: "model_at ?s0 i = ?m" by (simp add: model_at_def)
  have s1: "?s1 = s\<lparr>el_issues := [], el_tuples :=
      (if measures ?m \<noteq> [] then map (\<lambda>measure.
                (measure_reference measure, ''measure'',
                 SemanticModelElementContext (from_metadata (model_metadata ?m))
                   (SemanticModelElementReference (model_name ?m) (measure_name measure))
                   MEASURE)) (measures ?m) else [])\<rparr>"
    by (simp add: collect_measures_st_run m0 nth_upt_all)
  have m1: "model_at ?s1 i = ?m" unfolding s1 by (simp add: model_at_def)
  have s2: "?s2 = s\<lparr>el_issues := [], el_tuples :=
      (if measures ?m \<noteq> [] then map (\<lambda>measure.
                (measure_reference measure, ''measure'',
                 SemanticModelElementContext (from_metadata (model_metadata ?m))
                   (SemanticModelElementReference (model_name ?m) (measure_name measure))
                   MEASURE)) (measures ?m) else []) @
      (if entities ?m \<noteq> [] then map (\<lambda>entity.
                (entity_reference entity, ''entity'',
                 SemanticModelElementContext (from_metadata (model_metadata ?m))
                   (SemanticModelElementReference (model_name ?m) (entity_name entity))
                   ENTITY)) (entities ?m) else [])\<rparr>"
    unfolding collect_entities_st_run m1 nth_upt_all unfolding s1 by simp
  have m2: "model_at ?s2 i = ?m" unfolding s2 by (simp add: model_at_def)
  have s3: "?s3 = s\<lparr>el_issues := [], el_tuples := element_info_tuples ?m\<rparr>"
    unfolding collect_dimensions_st_run m2 nth_upt_all unfolding s2
    by (simp add: element_info_tuples_def)
  have m4: "model_at ?s4 i = ?m" unfolding s3 by (simp add: model_at_def)
  obtain n where d: "element_duplicates_st i (el_tuples ?s4) ?s4 =
      ?s4\<lparr>el_name_to_type := n,
          el_issues := el_issues ?s4 @
            element_duplicates (model_name (model_at ?s4 i)) (el_name_to_type ?s4)
              (el_tuples ?s4)\<rparr>"
    using element_duplicates_st_run by blast
  let ?s5 = "element_duplicates_st i (el_tuples ?s4) ?s4"
  have s5: "?s5 = s\<lparr>el_tuples := element_info_tuples ?m, el_name_to_type := n,
      el_issues := element_duplicates (model_name ?m) Map.empty (element_info_tuples ?m)\<rparr>"
    unfolding d m4 unfolding s3 by simp
  have run: "validate_semantic_model_elements_st list_names i s =
      element_name_checks_st list_names (el_tuples ?s5) ?s5"
    by (simp only: validate_semantic_model_elements_st_def Let_def m0 m1 m2)
  show ?thesis
    unfolding run element_name_checks_st_run unfolding s5
    by (simp add: validate_semantic_model_elements_issues)
qed

lemma collect_semantic_models_st_run:
  "collect_semantic_models_st list_names js s =
     Inr (s\<lparr>tl_tuples := tl_tuples s @
            map (\<lambda>semantic_model.
                   (model_name semantic_model, ''semantic model'',
                    semantic_model_context semantic_model))
              (map ((!) (semantic_models (manifest s))) js),
          tl_issues := tl_issues s @
            concat (map (\<lambda>semantic_model.
                   valid_name_issues list_names (model_name semantic_model)
                     (Some (semantic_model_context semantic_model)))
              (map ((!) (semantic_models (manifest s))) js))\<rparr>)"
  by (induction js arbitrary: s)
    (simp_all add: check_valid_name_issues model_at_def Let_def)

lemma object_duplicates_st_run:
  "\<exists>name_to_type.
     object_duplicates_st tuples s =
       s\<lparr>tl_name_to_type := name_to_type,
         tl_issues := tl_issues s @ object_duplicates (tl_name_to_type s) tuples\<rparr>"
proof (induction tuples arbitrary: s)
  case Nil
  show ?case by (rule exI [of _ "tl_name_to_type s"]) simp
next
  case (Cons x tuples)
  obtain name ty ctx where x: "x = (name, ty, ctx)" by (rule prod_cases3)
  show ?case
  proof (cases "tl_name_to_type s name")
    case None
    let ?s = "s\<lparr>tl_name_to_type := (tl_name_to_type s)(name \<mapsto> ty)\<rparr>"
    from Cons.IH [of ?s] obtain n where
      "object_duplicates_st tuples ?s =
         ?s\<lparr>tl_name_to_type := n,
            tl_issues := tl_issues ?s @ object_duplicates (tl_name_to_type ?s) tuples\<rparr>"
      by blast
    then have "object_duplicates_st (x # tuples) s =
        s\<lparr>tl_name_to_type := n,
          tl_issues := tl_issues s @ object_duplicates (tl_name_to_type s) (x # tuples)\<rparr>"
      using None x by simp
    then show ?thesis by blast
  next
    case (Some first_type)
    let ?e = "ValidationError (Some ctx) (object_duplicate_message name ty first_type)"
    let ?s = "s\<lparr>tl_issues := tl_issues s @ [?e]\<rparr>"
    from Cons.IH [of ?s] obtain n where
      "object_duplicates_st tuples ?s =
         ?s\<lparr>tl_name_to_type := n,
            tl_issues := tl_issues ?s @ object_duplicates (tl_name_to_type ?s) tuples\<rparr>"
      by blast
    then have "object_duplicates_st (x # tuples) s =
        s\<lparr>tl_name_to_type := n,
          tl_issues := tl_issues s @ object_duplicates (tl_name_to_type s) (x # tuples)\<rparr>"
      using Some x by simp
    then show ?thesis by blast
  qed
qed

lemma check_metrics_total:
  "\<exists>issues. check_metrics list_names metric_names ms = Inr issues"
proof (induction ms arbitrary: metric_names)
  case Nil
  then show ?case by simp
next
  case (Cons m ms)
  obtain a where a: "check_metrics list_names metric_names ms = Inr a"
    using Cons.IH by blast
  obtain b where b: "check_metrics list_names (insert (metric_name m) metric_names) ms = Inr b"
    using Cons.IH by blast
  show ?case by (simp add: check_valid_name_issues Let_def a b)
qed

lemma check_metrics_st_run:
  "check_metrics list_names (tl_metric_names s) (map ((!) (metrics (manifest s))) ks) =
     Inr issues \<Longrightarrow>
   \<exists>s'. check_metrics_st list_names ks s = Inr s' \<and> manifest s' = manifest s \<and>
        vm_issues s' = vm_issues s \<and> tl_issues s' = tl_issues s @ issues"
proof (induction ks arbitrary: s issues)
  case Nil
  then show ?case by simp
next
  case (Cons k ks)
  let ?metric = "metrics (manifest s) ! k"
  let ?ctx = "metric_context ?metric"
  let ?v = "valid_name_issues list_names (metric_name ?metric) (Some ?ctx)"
  let ?rest = "map ((!) (metrics (manifest s))) ks"
  let ?s1 = "s\<lparr>tl_issues := tl_issues s @ ?v\<rparr>"
  show ?case
  proof (cases "metric_name ?metric \<in> tl_metric_names s")
    case True
    let ?e = "ValidationError (Some ?ctx) (metric_duplicate_message (metric_name ?metric))"
    let ?s2 = "?s1\<lparr>tl_issues := tl_issues ?s1 @ [?e]\<rparr>"
    obtain later where l: "check_metrics list_names (tl_metric_names s) ?rest = Inr later"
      using check_metrics_total by blast
    have i: "issues = ?v @ [?e] @ later"
      using Cons.prems True l by (simp add: check_valid_name_issues Let_def)
    have "check_metrics list_names (tl_metric_names ?s2)
        (map ((!) (metrics (manifest ?s2))) ks) = Inr later"
      using l by simp
    from Cons.IH [OF this] obtain s' where
      s': "check_metrics_st list_names ks ?s2 = Inr s'" "manifest s' = manifest ?s2"
        "vm_issues s' = vm_issues ?s2" "tl_issues s' = tl_issues ?s2 @ later"
      by blast
    have "check_metrics_st list_names (k # ks) s = Inr s'"
      using True s'(1) by (simp add: check_valid_name_issues Let_def)
    then show ?thesis using s'(2,3,4) i by simp
  next
    case False
    let ?s2 = "?s1\<lparr>tl_metric_names := insert (metric_name ?metric) (tl_metric_names ?s1)\<rparr>"
    obtain later where l: "check_metrics list_names
        (insert (metric_name ?metric) (tl_metric_names s)) ?rest = Inr later"
      using check_metrics_total by blast
    have i: "issues = ?v @ later"
      using Cons.prems False l by (simp add: check_valid_name_issues Let_def)
    have "check_metrics list_names (tl_metric_names ?s2)
        (map ((!) (metrics (manifest ?s2))) ks) = Inr later"
      using l by simp
    from Cons.IH [OF this] obtain s' where
      s': "check_metrics_st list_names ks ?s2 = Inr s'" "manifest s' = manifest ?s2"
        "vm_issues s' = vm_issues ?s2" "tl_issues s' = tl_issues ?s2 @ later"
      by blast
    have "check_metrics_st list_names (k # ks) s = Inr s'"
      using False s'(1) by (simp add: check_valid_name_issues Let_def)
    then show ?thesis using s'(2,3,4) i by simp
  qed
qed

lemma validate_top_level_objects_st_run:
  "\<exists>s'. validate_top_level_objects_st list_names s = Inr s' \<and>
        manifest s' = manifest s \<and> vm_issues s' = vm_issues s \<and>
        validate_top_level_objects list_names (manifest s) = Inr (tl_issues s')"
proof -
  let ?models = "semantic_models (manifest s)"
  let ?tuples = "map (\<lambda>semantic_model.
      (model_name semantic_model, ''semantic model'', semantic_model_context semantic_model))
      ?models"
  let ?names = "concat (map (\<lambda>semantic_model.
      valid_name_issues list_names (model_name semantic_model)
        (Some (semantic_model_context semantic_model))) ?models)"
  let ?s0 = "s\<lparr>tl_tuples := [], tl_issues := []\<rparr>"
  let ?s1 = "s\<lparr>tl_tuples := ?tuples, tl_issues := ?names\<rparr>"
  have c: "(if semantic_models (manifest ?s0) \<noteq> []
            then collect_semantic_models_st list_names
                   [0..<length (semantic_models (manifest ?s0))] ?s0
            else Inr ?s0) = Inr ?s1"
    by (simp add: collect_semantic_models_st_run nth_upt_all)
  have f: "(if ?models \<noteq> [] then collect_semantic_models list_names ?models
            else Inr ([], [])) = Inr (?tuples, ?names)"
    by (simp add: collect_semantic_models_issues)
  let ?s2 = "?s1\<lparr>tl_name_to_type := Map.empty\<rparr>"
  obtain n where d: "object_duplicates_st (tl_tuples ?s2) ?s2 =
      ?s2\<lparr>tl_name_to_type := n,
          tl_issues := tl_issues ?s2 @ object_duplicates (tl_name_to_type ?s2) (tl_tuples ?s2)\<rparr>"
    using object_duplicates_st_run by blast
  let ?issues = "?names @ object_duplicates Map.empty ?tuples"
  let ?s3 = "s\<lparr>tl_tuples := ?tuples, tl_name_to_type := n, tl_issues := ?issues\<rparr>"
  have s3: "object_duplicates_st (tl_tuples ?s2) ?s2 = ?s3"
    unfolding d by simp
  have run: "validate_top_level_objects_st list_names s =
      (if metrics (manifest ?s3) \<noteq> [] then
         check_metrics_st list_names [0..<length (metrics (manifest ?s3))]
           (?s3\<lparr>tl_metric_names := {}\<rparr>)
       else Inr ?s3)"
    unfolding validate_top_level_objects_st_def Let_def c using s3 by simp
  have fun_run: "validate_top_level_objects list_names (manifest s) =
      (if metrics (manifest s) \<noteq> [] then
         (case check_metrics list_names {} (metrics (manifest s)) of
            Inl e \<Rightarrow> Inl e
          | Inr later \<Rightarrow> Inr (?issues @ later))
       else Inr ?issues)"
    unfolding validate_top_level_objects_def f by (simp add: Let_def)
  show ?thesis
  proof (cases "metrics (manifest s) = []")
    case True
    then show ?thesis unfolding run fun_run by simp
  next
    case False
    let ?s4 = "?s3\<lparr>tl_metric_names := {}\<rparr>"
    obtain later where l: "check_metrics list_names {} (metrics (manifest s)) = Inr later"
      using check_metrics_total by blast
    then have "check_metrics list_names (tl_metric_names ?s4)
        (map ((!) (metrics (manifest ?s4))) [0..<length (metrics (manifest ?s4))]) = Inr later"
      by (simp add: nth_upt_all)
    from check_metrics_st_run [OF this] obtain s' where
      s': "check_metrics_st list_names [0..<length (metrics (manifest ?s4))] ?s4 = Inr s'"
        "manifest s' = manifest ?s4" "vm_issues s' = vm_issues ?s4"
        "tl_issues s' = tl_issues ?s4 @ later"
      by blast
    have "validate_top_level_objects_st list_names s = Inr s'"
      unfolding run using False s'(1) by simp
    moreover have "validate_top_level_objects list_names (manifest s) = Inr (tl_issues s')"
      unfolding fun_run using False l s'(4) by simp
    ultimately show ?thesis using s'(2,3) by simp
  qed
qed

lemma validate_all_elements_total:
  "\<exists>issues. validate_all_elements list_names models = Inr issues"
  by (induction models) (auto simp add: validate_semantic_model_elements_issues)

lemma validate_all_elements_st_run:
  "validate_all_elements list_names (map ((!) (semantic_models (manifest s))) js) =
     Inr issues \<Longrightarrow>
   \<exists>s'. validate_all_elements_st list_names js s = Inr s' \<and> manifest s' = manifest s \<and>
        vm_issues s' = vm_issues s @ issues"
proof (induction js arbitrary: s issues)
  case Nil
  then show ?case by simp
next
  case (Cons j js)
  obtain s1 where s1: "validate_semantic_model_elements_st list_names j s = Inr s1"
      "manifest s1 = manifest s" "vm_issues s1 = vm_issues s"
      "validate_semantic_model_elements list_names (model_at s j) = Inr (el_issues s1)"
    using validate_semantic_model_elements_st_run by blast
  obtain later where l: "validate_all_elements list_names
      (map ((!) (semantic_models (manifest s))) js) = Inr later"
    using validate_all_elements_total by blast
  have i: "issues = el_issues s1 @ later"
    using Cons.prems s1(4) l by (simp add: model_at_def)
  let ?s2 = "s1\<lparr>vm_issues := vm_issues s1 @ el_issues s1\<rparr>"
  have "validate_all_elements list_names (map ((!) (semantic_models (manifest ?s2))) js) =
      Inr later"
    using l s1(2) by simp
  from Cons.IH [OF this] obtain s' where
    s': "validate_all_elements_st list_names js ?s2 = Inr s'" "manifest s' = manifest ?s2"
      "vm_issues s' = vm_issues ?s2 @ later"
    by blast
  have "validate_all_elements_st list_names (j # js) s = Inr s'"
    using s1(1) s'(1) by simp
  then show ?case using s'(2,3) s1(2,3) i by simp
qed

lemma unique_validate_manifest_st_run:
  "\<exists>s'. unique_validate_manifest_st list_names s = Inr s' \<and> manifest s' = manifest s \<and>
        unique_validate_manifest list_names (manifest s) = Inr (vm_issues s')"
proof -
  let ?s0 = "s\<lparr>vm_issues := []\<rparr>"
  obtain s1 where s1: "validate_top_level_objects_st list_names ?s0 = Inr s1"
      "manifest s1 = manifest ?s0" "vm_issues s1 = vm_issues ?s0"
      "validate_top_level_objects list_names (manifest ?s0) = Inr (tl_issues s1)"
    using validate_top_level_objects_st_run by blast
  let ?s2 = "s1\<lparr>vm_issues := vm_issues s1 @ tl_issues s1\<rparr>"
  obtain later where l: "validate_all_elements list_names (semantic_models (manifest s)) =
      Inr later"
    using validate_all_elements_total by blast
  then have "validate_all_elements list_names
      (map ((!) (semantic_models (manifest ?s2))) [0..<length (semantic_models (manifest ?s2))]) =
      Inr later"
    using s1(2) by (simp add: nth_upt_all)
  from validate_all_elements_st_run [OF this] obtain s' where
    s': "validate_all_elements_st list_names [0..<length (semantic_models (manifest ?s2))] ?s2 =
        Inr s'" "manifest s' = manifest ?s2" "vm_issues s' = vm_issues ?s2 @ later"
    by blast
  have "unique_validate_manifest_st list_names s = Inr s'"
    using s1(1) s'(1) by (simp add: unique_validate_manifest_st_def Let_def)
  moreover have "unique_validate_manifest list_names (manifest s) = Inr (vm_issues s')"
    using s1(3,4) l s'(3) by (simp add: unique_validate_manifest_def)
  ultimately show ?thesis using s'(2) s1(2) by simp
qed

text \<open>
  Claim C10. Both rules leave the manifest as it was. Run on a state that holds the
  manifest and the containers the functions allocate, \<^verbatim>\<open>UniqueAndValidNameRule
  .validate_manifest\<close> and \<^verbatim>\<open>PrimaryEntityDimensionPairs.validate_manifest\<close> return, with
  the manifest of the final state equal to the manifest of the initial state: the
  semantic models, the metrics and every attribute of them are the same before and
  after, and every write went to a container of the call. The issues returned are those
  of the functions on the manifest as a value.
\<close>

theorem validation_leaves_the_manifest_unchanged:
  "(\<exists>s'. unique_validate_manifest_st list_names s = Inr s' \<and> manifest s' = manifest s \<and>
         unique_validate_manifest list_names (manifest s) = Inr (vm_issues s')) \<and>
   (\<exists>s'. pairs_validate_manifest_st s = Inr s' \<and> manifest s' = manifest s \<and>
         pairs_validate_manifest (manifest s) = Inr (pm_issues s'))"
  using unique_validate_manifest_st_run [of list_names s] pairs_validate_manifest_st_run [of s]
  by simp

theorem validation_leaves_the_manifest_unchanged_witness:
  "(\<exists>s'. unique_validate_manifest_st [''DAY'']
           \<lparr>manifest =
              \<lparr>semantic_models =
                 [\<lparr>model_name = ''listings'', primary_entity = Some ''host'', measures = [],
                   entities = [], dimensions = [\<lparr>dimension_name = ''created_at''\<rparr>],
                   model_metadata = ()\<rparr>,
                  \<lparr>model_name = ''bookings'', primary_entity = Some ''host'', measures = [],
                   entities = [], dimensions = [\<lparr>dimension_name = ''created_at''\<rparr>],
                   model_metadata = ()\<rparr>],
               metrics = []\<rparr>,
            el_tuples = [], el_name_to_type = Map.empty, el_issues = [], tl_tuples = [],
            tl_name_to_type = Map.empty, tl_metric_names = {}, tl_issues = [],
            vm_issues = [], cs_issues = [], pm_known_pairings = Map.empty,
            pm_issues = []\<rparr> = Inr s' \<and>
         manifest s' =
           \<lparr>semantic_models =
              [\<lparr>model_name = ''listings'', primary_entity = Some ''host'', measures = [],
                entities = [], dimensions = [\<lparr>dimension_name = ''created_at''\<rparr>],
                model_metadata = ()\<rparr>,
               \<lparr>model_name = ''bookings'', primary_entity = Some ''host'', measures = [],
                entities = [], dimensions = [\<lparr>dimension_name = ''created_at''\<rparr>],
                model_metadata = ()\<rparr>],
            metrics = []\<rparr>) \<and>
   (\<exists>s'. pairs_validate_manifest_st
           \<lparr>manifest =
              \<lparr>semantic_models =
                 [\<lparr>model_name = ''listings'', primary_entity = Some ''host'', measures = [],
                   entities = [], dimensions = [\<lparr>dimension_name = ''created_at''\<rparr>],
                   model_metadata = ()\<rparr>,
                  \<lparr>model_name = ''bookings'', primary_entity = Some ''host'', measures = [],
                   entities = [], dimensions = [\<lparr>dimension_name = ''created_at''\<rparr>],
                   model_metadata = ()\<rparr>],
               metrics = []\<rparr>,
            el_tuples = [], el_name_to_type = Map.empty, el_issues = [], tl_tuples = [],
            tl_name_to_type = Map.empty, tl_metric_names = {}, tl_issues = [],
            vm_issues = [], cs_issues = [], pm_known_pairings = Map.empty,
            pm_issues = []\<rparr> = Inr s' \<and>
         manifest s' =
           \<lparr>semantic_models =
              [\<lparr>model_name = ''listings'', primary_entity = Some ''host'', measures = [],
                entities = [], dimensions = [\<lparr>dimension_name = ''created_at''\<rparr>],
                model_metadata = ()\<rparr>,
               \<lparr>model_name = ''bookings'', primary_entity = Some ''host'', measures = [],
                entities = [], dimensions = [\<lparr>dimension_name = ''created_at''\<rparr>],
                model_metadata = ()\<rparr>],
            metrics = []\<rparr> \<and>
         pm_issues s' =
           [ValidationError
              (Some (SemanticModelElementContext (from_metadata ())
                       (SemanticModelElementReference ''bookings'' ''created_at'') DIMENSION))
              (pairing_message ''bookings'' ''host'' ''created_at'' ''listings'')])"
proof -
  let ?m = "\<lparr>semantic_models =
      [\<lparr>model_name = ''listings'', primary_entity = Some ''host'', measures = [],
        entities = [], dimensions = [\<lparr>dimension_name = ''created_at''\<rparr>],
        model_metadata = ()\<rparr>,
       \<lparr>model_name = ''bookings'', primary_entity = Some ''host'', measures = [],
        entities = [], dimensions = [\<lparr>dimension_name = ''created_at''\<rparr>],
        model_metadata = ()\<rparr>],
      metrics = []\<rparr>"
  let ?s = "\<lparr>manifest = ?m,
      el_tuples = [], el_name_to_type = Map.empty, el_issues = [], tl_tuples = [],
      tl_name_to_type = Map.empty, tl_metric_names = {}, tl_issues = [],
      vm_issues = [], cs_issues = [], pm_known_pairings = Map.empty, pm_issues = []\<rparr>"
  have p: "pairs_validate_manifest ?m =
      Inr [ValidationError
             (Some (SemanticModelElementContext (from_metadata ())
                      (SemanticModelElementReference ''bookings'' ''created_at'') DIMENSION))
             (pairing_message ''bookings'' ''host'' ''created_at'' ''listings'')]"
    by (simp add: pairs_validate_manifest_def check_semantic_model_def
        resolve_primary_entity_def pairing_context_def)
  show ?thesis
    using validation_leaves_the_manifest_unchanged [of "[''DAY'']" ?s] p
    by auto
qed

end
